theory Spec2Isabelle
  imports Complex_Main
begin

section \<open>Python values, as far as the orchestrator looks at them\<close>

text \<open>
  The orchestrator (\<^verbatim>\<open>semantic_kernel_orchestrator.py\<close>) decodes every agent payload with
  \<^verbatim>\<open>json.loads\<close> and then walks the decoded value with \<^verbatim>\<open>[...]\<close>, \<^verbatim>\<open>.get\<close>, \<^verbatim>\<open>==\<close>,
  \<^verbatim>\<open>>=\<close>, \<^verbatim>\<open>in\<close> and \<^verbatim>\<open>str.join\<close>. The values \<^verbatim>\<open>json.loads\<close> can return are modelled by
  \<open>json\<close>; a Python float is its exact rational value, an infinity or NaN (which
  \<^verbatim>\<open>json.loads\<close> accepts). An object is its list of key/value pairs in insertion order,
  with distinct keys; a string is the list of its characters.
\<close>

datatype pyfloat = Finite rat | PosInf | NegInf | NaN

datatype json =
    JNull
  | JBool bool
  | JInt int
  | JFloat pyfloat
  | JStr string
  | JArr "json list"
  | JObj "(string \<times> json) list"

text \<open>The exceptions that the modelled statements raise. \<open>Fault\<close> is any other
  \<^verbatim>\<open>Exception\<close> raised by the agent runtime, with its message.\<close>

datatype py_exn =
    JSONDecodeError
  | KeyError json
  | TypeError
  | AttributeError
  | IndexError
  | Fault string

text \<open>\<^verbatim>\<open>json.loads\<close> itself is library code: it is a parameter of the model. \<open>None\<close>
  stands for the call raising \<^verbatim>\<open>JSONDecodeError\<close>.\<close>

type_synonym loads = "string \<Rightarrow> json option"

text \<open>A subscript is a string key or an integer index.\<close>

datatype key = K string | I int

text \<open>\<^verbatim>\<open>xs[i]\<close> on a Python sequence: negative indices count from the end.\<close>

definition py_seq_index :: "'a list \<Rightarrow> int \<Rightarrow> py_exn + 'a" where
  "py_seq_index xs i =
     (if 0 \<le> i \<and> i < int (length xs) then Inr (xs ! nat i)
      else if i < 0 \<and> - int (length xs) \<le> i then Inr (xs ! nat (int (length xs) + i))
      else Inl IndexError)"

text \<open>\<^verbatim>\<open>v[k]\<close>. The keys of a decoded object are strings, so an integer subscript of an
  object is a missing key; a string subscript of a list or of a string, and any subscript
  of a number, a boolean or \<^verbatim>\<open>None\<close>, is a \<^verbatim>\<open>TypeError\<close>.\<close>

fun py_getitem :: "json \<Rightarrow> key \<Rightarrow> py_exn + json" where
  "py_getitem (JObj kvs) (K k) =
     (case map_of kvs k of None \<Rightarrow> Inl (KeyError (JStr k)) | Some v \<Rightarrow> Inr v)"
| "py_getitem (JObj kvs) (I i) = Inl (KeyError (JInt i))"
| "py_getitem (JArr xs) (I i) = py_seq_index xs i"
| "py_getitem (JStr s) (I i) =
     (case py_seq_index s i of Inl e \<Rightarrow> Inl e | Inr c \<Rightarrow> Inr (JStr [c]))"
| "py_getitem _ _ = Inl TypeError"

text \<open>A chain of subscripts \<^verbatim>\<open>v[k1][k2]...\<close>, evaluated left to right.\<close>

fun py_path :: "json \<Rightarrow> key list \<Rightarrow> py_exn + json" where
  "py_path v [] = Inr v"
| "py_path v (k # ks) =
     (case py_getitem v k of Inl e \<Rightarrow> Inl e | Inr w \<Rightarrow> py_path w ks)"

text \<open>\<^verbatim>\<open>v.get(k, default)\<close>: only a dict has the method.\<close>

fun py_get :: "json \<Rightarrow> string \<Rightarrow> json \<Rightarrow> py_exn + json" where
  "py_get (JObj kvs) k d = (case map_of kvs k of None \<Rightarrow> Inr d | Some v \<Rightarrow> Inr v)"
| "py_get _ k d = Inl AttributeError"

text \<open>\<^verbatim>\<open>a >= b\<close> on floats: every comparison with NaN is false.\<close>

fun float_ge :: "pyfloat \<Rightarrow> pyfloat \<Rightarrow> bool" where
  "float_ge NaN _ = False"
| "float_ge _ NaN = False"
| "float_ge PosInf _ = True"
| "float_ge _ NegInf = True"
| "float_ge NegInf _ = False"
| "float_ge _ PosInf = False"
| "float_ge (Finite a) (Finite b) = (b \<le> a)"

text \<open>\<^verbatim>\<open>v >= t\<close> for a decoded value \<open>v\<close> and a float \<open>t\<close>: numbers and booleans compare
  by value, anything else raises \<^verbatim>\<open>TypeError\<close>.\<close>

fun py_ge :: "json \<Rightarrow> pyfloat \<Rightarrow> py_exn + bool" where
  "py_ge (JBool b) t = Inr (float_ge (Finite (if b then 1 else 0)) t)"
| "py_ge (JInt i) t = Inr (float_ge (Finite (of_int i)) t)"
| "py_ge (JFloat f) t = Inr (float_ge f t)"
| "py_ge _ t = Inl TypeError"

fun join_strs :: "string \<Rightarrow> string list \<Rightarrow> string" where
  "join_strs sep [] = []"
| "join_strs sep [x] = x"
| "join_strs sep (x # y # ys) = x @ sep @ join_strs sep (y # ys)"

fun str_of :: "json \<Rightarrow> string option" where
  "str_of (JStr s) = Some s"
| "str_of _ = None"

text \<open>\<^verbatim>\<open>sep.join(v)\<close>: \<open>v\<close> must be iterable and yield strings only. A list yields its
  items, a string its characters, a dict its keys.\<close>

fun py_join :: "string \<Rightarrow> json \<Rightarrow> py_exn + string" where
  "py_join sep (JArr xs) =
     (case those (map str_of xs) of None \<Rightarrow> Inl TypeError | Some ss \<Rightarrow> Inr (join_strs sep ss))"
| "py_join sep (JStr s) = Inr (join_strs sep (map (\<lambda>c. [c]) s))"
| "py_join sep (JObj kvs) = Inr (join_strs sep (map fst kvs))"
| "py_join sep _ = Inl TypeError"

section \<open>Data model\<close>

text \<open>One printed line is a list of pieces: literal text and the formatted values of an
  f-string. \<open>Dumps v\<close> is \<^verbatim>\<open>json.dumps(v, indent=2)\<close>. The reason of a routing decision
  is one such line.\<close>

datatype piece = Lit string | Val json | Flt pyfloat | Exn py_exn | Dumps json

type_synonym line = "piece list"

datatype author_role = SYSTEM | USER | ASSISTANT | TOOL | DEVELOPER

text \<open>\<^verbatim>\<open>ChatMessageContent\<close>: one turn of the conversation log.\<close>

record chat_message =
  role :: author_role
  name :: "string option"
  content :: string

text \<open>\<^verbatim>\<open>BooleanResult\<close>, \<^verbatim>\<open>StringResult\<close> and \<^verbatim>\<open>MessageResult\<close> are one generic record
  of a result and a reason; the code builds a \<^verbatim>\<open>StringResult\<close> with \<^verbatim>\<open>result=None\<close> for
  "no next speaker", so its result is optional.\<close>

record 'a manager_result =
  result :: 'a
  reason :: line

type_synonym boolean_result = "bool manager_result"
type_synonym string_result = "string option manager_result"
type_synonym message_result = "chat_message manager_result"

text \<open>\<^verbatim>\<open>participant_descriptions\<close>: the registry, a dict from participant name to
  description, as its items in order.\<close>

type_synonym registry = "(string \<times> string) list"

text \<open>The two module-level thresholds, read from the environment when the module is
  imported and never assigned again.\<close>

record config =
  confidence_threshold :: pyfloat
  cqa_confidence :: pyfloat

text \<open>\<^verbatim>\<open>next((agent for agent in participant_descriptions.keys() if agent == a), None)\<close>\<close>

definition next_agent :: "registry \<Rightarrow> string \<Rightarrow> string option" where
  "next_agent participant_descriptions a =
     List.find (\<lambda>agent. agent = a) (map fst participant_descriptions)"

text \<open>\<^verbatim>\<open>chat_history[-1]\<close>\<close>

definition py_last :: "'a list \<Rightarrow> py_exn + 'a" where
  "py_last xs = py_seq_index xs (- 1)"

section \<open>Routing functions\<close>

text \<open>Each function returns the lines it prints and its return value. A \<^verbatim>\<open>try\<close> block
  is a chain of \<open>case\<close>s whose \<open>Inl\<close> branches are the \<^verbatim>\<open>except Exception\<close> handler.\<close>

text \<open>\<^verbatim>\<open>route_user_message\<close>. Nothing in its \<^verbatim>\<open>try\<close> block raises (\<^verbatim>\<open>next\<close> has a
  default), so the handler is not reached.\<close>

definition route_user_message :: "registry \<Rightarrow> line list \<times> string_result" where
  "route_user_message participant_descriptions =
     ([], \<lparr>result = next_agent participant_descriptions ''TranslationAgent'',
           reason = [Lit ''Routing to TranslationAgent for initial translation.'']\<rparr>)"

definition translation_error :: "py_exn \<Rightarrow> line list \<times> string_result" where
  "translation_error e =
     ([], \<lparr>result = None, reason = [Lit ''Error routing to TriageAgent: '', Exn e]\<rparr>)"

definition route_translation_message ::
  "loads \<Rightarrow> chat_message \<Rightarrow> registry \<Rightarrow> line list \<times> string_result" where
  "route_translation_message json_loads last_message participant_descriptions =
     (case json_loads (content last_message) of
        None \<Rightarrow> translation_error JSONDecodeError
      | Some parsed \<Rightarrow>
          (case py_getitem parsed (K ''response'') of
             Inl e \<Rightarrow> translation_error e
           | Inr response \<Rightarrow>
               ([[Lit ''[TranslationAgent] Translated message: '', Val response]],
                \<lparr>result = next_agent participant_descriptions ''TriageAgent'',
                 reason = [Lit ''Routing to TriageAgent for intent classification.'']\<rparr>)))"

definition triage_error :: "line list \<Rightarrow> py_exn \<Rightarrow> line list \<times> string_result option" where
  "triage_error printed e =
     (printed @ [[Lit ''[SYSTEM]: Error processing TriageAgent message: '', Exn e]],
      Some \<lparr>result = None, reason = [Lit ''Error processing TriageAgent message.'']\<rparr>)"

text \<open>The \<^verbatim>\<open>cqa_result\<close> branch of \<^verbatim>\<open>route_triage_message\<close>.\<close>

definition triage_cqa ::
  "config \<Rightarrow> json \<Rightarrow> registry \<Rightarrow> line list \<times> string_result option" where
  "triage_cqa cfg parsed participant_descriptions =
     (let printed = [[Lit ''[SYSTEM]: CQA result received, checking confidence...'']] in
      case py_path parsed [K ''response'', K ''answers'', I 0, K ''confidenceScore''] of
        Inl e \<Rightarrow> triage_error printed e
      | Inr confidence \<Rightarrow>
          (case py_ge confidence (cqa_confidence cfg) of
             Inl e \<Rightarrow> triage_error printed e
           | Inr True \<Rightarrow>
               (printed @ [[Lit ''[TriageAgent]: CQA confidence '', Val confidence, Lit '' >= '',
                            Flt (cqa_confidence cfg), Lit '', returning FAQ answer'']],
                Some \<lparr>result = next_agent participant_descriptions ''TranslationAgent'',
                      reason = [Lit ''Routing to TranslationAgent for final translation of CQA answer.'']\<rparr>)
           | Inr False \<Rightarrow>
               (printed @ [[Lit ''[TriageAgent]: CQA confidence '', Val confidence, Lit '' < '',
                            Flt (cqa_confidence cfg), Lit '', falling back to Lumi'']],
                Some \<lparr>result = next_agent participant_descriptions ''Lumi'',
                      reason = [Lit ''Low CQA confidence, routing to Lumi for deeper analysis.'']\<rparr>)))"

text \<open>The \<^verbatim>\<open>clu_result\<close> branch of \<^verbatim>\<open>route_triage_message\<close>.\<close>

definition triage_clu ::
  "config \<Rightarrow> json \<Rightarrow> registry \<Rightarrow> line list \<times> string_result option" where
  "triage_clu cfg parsed participant_descriptions =
     (let printed = [[Lit ''[SYSTEM]: CLU result received, checking intent and entities...'']] in
      case py_path parsed
             [K ''response'', K ''result'', K ''conversations'', I 0, K ''intents'', I 0, K ''name''] of
        Inl e \<Rightarrow> triage_error printed e
      | Inr intent \<Rightarrow>
          (case py_path parsed
                  [K ''response'', K ''result'', K ''conversations'', I 0, K ''intents'', I 0,
                   K ''confidenceScore''] of
             Inl e \<Rightarrow> triage_error printed e
           | Inr confidence \<Rightarrow>
               (let printed2 = printed @
                      [[Lit ''[TriageAgent]: Detected intent '', Val intent,
                        Lit '' with confidence '', Val confidence]] in
                case py_ge confidence (confidence_threshold cfg) of
                  Inl e \<Rightarrow> triage_error printed2 e
                | Inr True \<Rightarrow>
                    (printed2 @ [[Lit ''[TriageAgent]: Routing to Lumi for SAGE agent selection...'']],
                     Some \<lparr>result = next_agent participant_descriptions ''Lumi'',
                           reason = [Lit ''Routing to Lumi for IRI domain agent selection.'']\<rparr>)
                | Inr False \<Rightarrow>
                    (printed2 @ [[Lit ''[TriageAgent]: Low CLU confidence '', Val confidence,
                                  Lit '', routing to Lumi for clarification'']],
                     Some \<lparr>result = next_agent participant_descriptions ''Lumi'',
                           reason = [Lit ''Low CLU confidence, Lumi will request clarification.'']\<rparr>))))"

text \<open>\<^verbatim>\<open>route_triage_message\<close>. When the type is neither \<^verbatim>\<open>cqa_result\<close> nor
  \<^verbatim>\<open>clu_result\<close> the \<^verbatim>\<open>try\<close> block ends without a \<^verbatim>\<open>return\<close> and control falls off the end
  of the function: it returns Python's \<^verbatim>\<open>None\<close>, not a \<^verbatim>\<open>StringResult\<close>. That is the
  \<open>None\<close> of the result type.\<close>

definition route_triage_message ::
  "loads \<Rightarrow> config \<Rightarrow> chat_message \<Rightarrow> registry \<Rightarrow> line list \<times> string_result option" where
  "route_triage_message json_loads cfg last_message participant_descriptions =
     (case json_loads (content last_message) of
        None \<Rightarrow> triage_error [] JSONDecodeError
      | Some parsed \<Rightarrow>
          (case py_get parsed ''type'' JNull of
             Inl e \<Rightarrow> triage_error [] e
           | Inr ty \<Rightarrow>
               if ty = JStr ''cqa_result'' then triage_cqa cfg parsed participant_descriptions
               else if ty = JStr ''clu_result'' then triage_clu cfg parsed participant_descriptions
               else ([], None)))"

definition valid_agents :: "string list" where
  "valid_agents = [''SciencesAgent'', ''GovernanceAgent'', ''AnalyticsAgent'', ''ExperienceAgent'']"

definition lumi_error :: "line list \<Rightarrow> py_exn \<Rightarrow> line list \<times> string_result" where
  "lumi_error printed e =
     (printed @ [[Lit ''[SYSTEM]: Error processing Lumi message: '', Exn e]],
      \<lparr>result = None, reason = [Lit ''Error processing Lumi message.'']\<rparr>)"

text \<open>\<^verbatim>\<open>route_lumi_message\<close>. \<^verbatim>\<open>target_agent not in valid_agents\<close> compares the decoded
  value with the four names, so only a string equal to one of them is known. After the
  check \<open>target\<close> is the name the code goes on with. The reason is built with
  \<^verbatim>\<open>', '.join(iri_domains)\<close>, which raises inside the \<^verbatim>\<open>try\<close> block when \<^verbatim>\<open>iri_domains\<close> is
  not an iterable of strings.\<close>

definition route_lumi_message ::
  "loads \<Rightarrow> chat_message \<Rightarrow> registry \<Rightarrow> line list \<times> string_result" where
  "route_lumi_message json_loads last_message participant_descriptions =
     (case json_loads (content last_message) of
        None \<Rightarrow> lumi_error [] JSONDecodeError
      | Some parsed \<Rightarrow>
          (case py_get parsed ''target_agent'' JNull of
             Inl e \<Rightarrow> lumi_error [] e
           | Inr target_agent \<Rightarrow>
               (case py_get parsed ''iri_domains'' (JArr []) of
                  Inl e \<Rightarrow> lumi_error [] e
                | Inr iri_domains \<Rightarrow>
                    (let printed = [[Lit ''[Lumi] Routing to '', Val target_agent,
                                     Lit '' (IRI domains: '', Val iri_domains, Lit '')'']];
                         unknown = (target_agent \<notin> set (map JStr valid_agents));
                         printed2 = (if unknown
                                     then printed @ [[Lit ''[SYSTEM]: Unknown target agent '',
                                                      Val target_agent,
                                                      Lit '', defaulting to GovernanceAgent'']]
                                     else printed);
                         target = (if unknown then ''GovernanceAgent''
                                   else (case target_agent of JStr s \<Rightarrow> s | _ \<Rightarrow> ''GovernanceAgent''))
                     in case py_join '', '' iri_domains of
                          Inl e \<Rightarrow> lumi_error printed2 e
                        | Inr domains \<Rightarrow>
                            (printed2,
                             \<lparr>result = next_agent participant_descriptions target,
                              reason = [Lit ''Routing to '', Lit target, Lit '' for '', Lit domains,
                                        Lit '' domain expertise.'']\<rparr>)))))"

definition sage_error :: "py_exn \<Rightarrow> line list \<times> string_result" where
  "sage_error e =
     ([[Lit ''[SYSTEM]: Error processing SAGE agent message: '', Exn e]],
      \<lparr>result = None, reason = [Lit ''Error processing SAGE agent message.'']\<rparr>)"

definition name_text :: "string option \<Rightarrow> piece" where
  "name_text n = (case n of None \<Rightarrow> Lit ''None'' | Some s \<Rightarrow> Lit s)"

definition route_sage_agent_message ::
  "loads \<Rightarrow> chat_message \<Rightarrow> registry \<Rightarrow> line list \<times> string_result" where
  "route_sage_agent_message json_loads last_message participant_descriptions =
     (case json_loads (content last_message) of
        None \<Rightarrow> sage_error JSONDecodeError
      | Some parsed \<Rightarrow>
          (case py_get parsed ''response'' (JStr []) of
             Inl e \<Rightarrow> sage_error e
           | Inr response \<Rightarrow>
               (case py_get parsed ''need_more_info'' (JStr ''False'') of
                  Inl e \<Rightarrow> sage_error e
                | Inr need_more_info \<Rightarrow>
                    ([[Lit ''['', name_text (name last_message),
                       Lit '']: Response received, need_more_info='', Val need_more_info],
                      [Lit ''[TranslationAgent]: Translating response back to user language'']],
                     \<lparr>result = next_agent participant_descriptions ''TranslationAgent'',
                      reason = [Lit ''Routing to TranslationAgent for final translation.'']\<rparr>))))"

section \<open>The group chat manager\<close>

text \<open>\<^verbatim>\<open>CustomGroupChatManager.filter_results\<close>\<close>

definition filter_results :: "chat_message list \<Rightarrow> py_exn + message_result" where
  "filter_results chat_history =
     (if chat_history = [] then
        Inr \<lparr>result = \<lparr>role = ASSISTANT, name = None, content = ''No messages in chat history.''\<rparr>,
             reason = [Lit ''Chat history is empty.'']\<rparr>
      else
        (case py_last chat_history of
           Inl e \<Rightarrow> Inl e
         | Inr last_message \<Rightarrow>
             Inr \<lparr>result = \<lparr>role = ASSISTANT, name = None, content = content last_message\<rparr>,
                  reason = [Lit ''Returning the last agent's response.'']\<rparr>))"

definition no_user_input :: boolean_result where
  "no_user_input = \<lparr>result = False, reason = [Lit ''No user input required.'']\<rparr>"

text \<open>\<^verbatim>\<open>CustomGroupChatManager.should_request_user_input\<close>. The bare \<^verbatim>\<open>except: pass\<close>
  swallows every failure of the decoding and of \<^verbatim>\<open>.get\<close>.\<close>

definition should_request_user_input :: "loads \<Rightarrow> chat_message list \<Rightarrow> py_exn + boolean_result" where
  "should_request_user_input json_loads chat_history =
     (if chat_history \<noteq> [] then
        (case py_last chat_history of
           Inl e \<Rightarrow> Inl e
         | Inr last_message \<Rightarrow>
             (case json_loads (content last_message) of
                None \<Rightarrow> Inr no_user_input
              | Some parsed \<Rightarrow>
                  (case py_get parsed ''need_more_info'' JNull of
                     Inl e \<Rightarrow> Inr no_user_input
                   | Inr flag \<Rightarrow>
                       if flag = JStr ''True''
                       then Inr \<lparr>result = True,
                                 reason = [Lit ''Agent needs more information from user.'']\<rparr>
                       else Inr no_user_input)))
      else Inr no_user_input)"

text \<open>\<^verbatim>\<open>format_agent_response\<close>, called by \<^verbatim>\<open>select_next_agent\<close> for its output only.\<close>

definition format_agent_response :: "loads \<Rightarrow> chat_message option \<Rightarrow> line list" where
  "format_agent_response json_loads response =
     (case response of
        None \<Rightarrow> []
      | Some r \<Rightarrow>
          (let who = (case name r of None \<Rightarrow> ''USER'' | Some n \<Rightarrow> if n = [] then ''USER'' else n) in
           case json_loads (content r) of
             Some v \<Rightarrow> [[Lit ''['', Lit who, Lit '']:'', Dumps v]]
           | None \<Rightarrow> [[Lit ''['', Lit who, Lit '']: '', Lit (content r)]]))"

definition printing :: "line list \<Rightarrow> line list \<times> 'a \<Rightarrow> line list \<times> 'a" where
  "printing printed r = (printed @ fst r, snd r)"

definition some_result :: "line list \<times> 'a \<Rightarrow> line list \<times> 'a option" where
  "some_result r = (fst r, Some (snd r))"

text \<open>\<^verbatim>\<open>CustomGroupChatManager.select_next_agent\<close>. \<open>None\<close> as the returned value is
  Python's \<^verbatim>\<open>None\<close> (no \<^verbatim>\<open>StringResult\<close> at all), which only \<^verbatim>\<open>route_triage_message\<close>
  produces.\<close>

definition select_next_agent ::
  "loads \<Rightarrow> config \<Rightarrow> chat_message list \<Rightarrow> registry \<Rightarrow> line list \<times> string_result option" where
  "select_next_agent json_loads cfg chat_history participant_descriptions =
     (let last_message = (if chat_history \<noteq> [] then Some (last chat_history) else None);
          printed = format_agent_response json_loads last_message;
          from_user =
            printing (printed @ [[Lit ''[SYSTEM]: User message received, routing to TranslationAgent...'']])
              (some_result (route_user_message participant_descriptions))
      in case last_message of
           None \<Rightarrow> from_user
         | Some m \<Rightarrow>
             if role m = USER then from_user
             else if name m = Some ''TranslationAgent'' then
               (if length chat_history > 3 then
                  (printed @ [[Lit ''[SYSTEM]: Final translation complete, terminating.'']],
                   Some \<lparr>result = None, reason = [Lit ''Final translation complete.'']\<rparr>)
                else
                  printing
                    (printed @ [[Lit ''[SYSTEM]: Initial translation complete, routing to TriageAgent...'']])
                    (some_result (route_translation_message json_loads m participant_descriptions)))
             else if name m = Some ''TriageAgent'' then
               printing (printed @ [[Lit ''[SYSTEM]: Triage complete, routing based on result type...'']])
                 (route_triage_message json_loads cfg m participant_descriptions)
             else if name m = Some ''Lumi'' then
               printing (printed @ [[Lit ''[SYSTEM]: Lumi routing to SAGE agent...'']])
                 (some_result (route_lumi_message json_loads m participant_descriptions))
             else if name m \<in> set (map Some valid_agents) then
               printing
                 (printed @ [[Lit ''[SYSTEM]: '', name_text (name m),
                              Lit '' response received, routing to TranslationAgent...'']])
                 (some_result (route_sage_agent_message json_loads m participant_descriptions))
             else
               (printed @ [[Lit ''[SYSTEM]: No valid routing logic found, terminating.'']],
                Some \<lparr>result = None, reason = [Lit ''No valid routing logic found.'']\<rparr>))"

text \<open>\<^verbatim>\<open>CustomGroupChatManager.should_terminate\<close>\<close>

definition should_terminate :: "chat_message list \<Rightarrow> py_exn + line list \<times> boolean_result" where
  "should_terminate chat_history =
     (if chat_history = [] then
        Inr ([], \<lparr>result = False, reason = [Lit ''No messages in chat history.'']\<rparr>)
      else
        (case py_last chat_history of
           Inl e \<Rightarrow> Inl e
         | Inr last_message \<Rightarrow>
             if name last_message = Some ''TranslationAgent'' \<and> length chat_history > 3 then
               Inr ([[Lit ''[SYSTEM]: Final translation from '', name_text (name last_message),
                      Lit '', terminating.'']],
                    \<lparr>result = True, reason = [Lit ''Chat terminated after final translation.'']\<rparr>)
             else Inr ([], \<lparr>result = False, reason = [Lit ''Chat continues.'']\<rparr>)))"

section \<open>The supervising retry loop\<close>

text \<open>
  \<^verbatim>\<open>SemanticKernelOrchestrator.process_message\<close> drives the agent runtime, which is not
  part of the repository. What the runtime does in one attempt is an \<open>attempt\<close>:
  whether \<^verbatim>\<open>orchestration.invoke\<close> raises, what \<^verbatim>\<open>orchestration_result.get(timeout=120)\<close>
  does (it times out, raises another \<^verbatim>\<open>Exception\<close>, or delivers a message with the given
  content), and whether \<^verbatim>\<open>runtime.stop_when_idle\<close> raises. The environment gives the
  attempt for each value of \<^verbatim>\<open>retry_count\<close>. The trace records the calls made on the
  runtime and the pauses.
\<close>

datatype get_outcome = GetTimeout | GetRaises py_exn | GetValue string

record attempt =
  invoke_raises :: "py_exn option"
  awaited :: get_outcome
  stop_raises :: "py_exn option"

datatype event =
    Started nat
  | Invoked nat
  | Awaited nat nat
  | Stopped nat
  | ShutdownError nat py_exn
  | Slept nat

text \<open>The dict kept in \<^verbatim>\<open>last_exception\<close>.\<close>

record last_exception =
  etype :: string
  emessage :: line

text \<open>The first component of the returned pair: the final answer, or the dict
  \<^verbatim>\<open>{"error": f"Orchestration failed: {last_exception}"}\<close>.\<close>

datatype answer = FinalAnswer json | ErrorDict "last_exception option"

datatype outcome = Returned answer json | Raised py_exn

text \<open>The decoding of the final message (the three statements after the \<^verbatim>\<open>print\<close> of the
  final result).\<close>

definition extract_answer :: "loads \<Rightarrow> string \<Rightarrow> py_exn + json \<times> json" where
  "extract_answer json_loads c =
     (case json_loads c of
        None \<Rightarrow> Inl JSONDecodeError
      | Some final_response \<Rightarrow>
          (case py_path final_response [K ''response'', K ''final_answer''] of
             Inl e \<Rightarrow> Inl e
           | Inr final_answer \<Rightarrow>
               (case py_getitem final_response (K ''response'') of
                  Inl e \<Rightarrow> Inl e
                | Inr response \<Rightarrow>
                    (case py_get response ''need_more_info'' (JBool False) of
                       Inl e \<Rightarrow> Inl e
                     | Inr need_more_info \<Rightarrow> Inr (final_answer, need_more_info)))))"

text \<open>The \<^verbatim>\<open>finally\<close> block: \<^verbatim>\<open>stop_when_idle\<close> is awaited, and its failure is printed
  and dropped.\<close>

definition teardown :: "nat \<Rightarrow> attempt \<Rightarrow> event list" where
  "teardown i a =
     Stopped i # (case stop_raises a of None \<Rightarrow> [] | Some e \<Rightarrow> [ShutdownError i e])"

definition timeout_failure :: last_exception where
  "timeout_failure = \<lparr>etype = ''timeout'', emessage = [Lit ''Orchestration timed out'']\<rparr>"

definition exception_failure :: "py_exn \<Rightarrow> last_exception" where
  "exception_failure e = \<lparr>etype = ''exception'', emessage = [Exn e]\<rparr>"

text \<open>The \<^verbatim>\<open>while retry_count < self.max_retries\<close> loop with what follows it. The call
  to \<^verbatim>\<open>invoke\<close> stands in the outer \<^verbatim>\<open>try\<close>, which has a \<^verbatim>\<open>finally\<close> and no \<^verbatim>\<open>except\<close>: when
  it raises, the runtime is stopped and the exception leaves the function. The variable
  \<^verbatim>\<open>need_more_info\<close> is assigned only just before the successful \<^verbatim>\<open>return\<close>, so after the
  loop it still holds \<^verbatim>\<open>False\<close>.\<close>

function process_loop ::
  "loads \<Rightarrow> int \<Rightarrow> (nat \<Rightarrow> attempt) \<Rightarrow> nat \<Rightarrow> last_exception option \<Rightarrow> event list
     \<Rightarrow> event list \<times> outcome" where
  "process_loop json_loads max_retries env retry_count last_exc trace =
     (if int retry_count < max_retries then
        (let a = env retry_count;
             started = trace @ [Started retry_count, Invoked retry_count];
             got = started @ [Awaited retry_count 120];
             failed = got @ teardown retry_count a @ [Slept 1]
         in case invoke_raises a of
              Some e \<Rightarrow> (started @ teardown retry_count a, Raised e)
            | None \<Rightarrow>
                (case awaited a of
                   GetTimeout \<Rightarrow>
                     process_loop json_loads max_retries env (Suc retry_count)
                       (Some timeout_failure) failed
                 | GetRaises e \<Rightarrow>
                     process_loop json_loads max_retries env (Suc retry_count)
                       (Some (exception_failure e)) failed
                 | GetValue c \<Rightarrow>
                     (case extract_answer json_loads c of
                        Inl e \<Rightarrow>
                          process_loop json_loads max_retries env (Suc retry_count)
                            (Some (exception_failure e)) failed
                      | Inr found \<Rightarrow>
                          (got @ teardown retry_count a,
                           Returned (FinalAnswer (fst found)) (snd found)))))
      else (trace, Returned (ErrorDict last_exc) (JBool False)))"
  by pat_completeness auto
termination
  by (relation "measure (\<lambda>(l, m, env, rc, le, tr). nat (m - int rc))") auto

definition process_message :: "loads \<Rightarrow> int \<Rightarrow> (nat \<Rightarrow> attempt) \<Rightarrow> event list \<times> outcome" where
  "process_message json_loads max_retries env = process_loop json_loads max_retries env 0 None []"

section \<open>Sample configuration, registry and payloads\<close>

text \<open>The default thresholds: the floats that Python reads from \<^verbatim>\<open>"0.7"\<close> and \<^verbatim>\<open>"0.8"\<close>.\<close>

definition default_config :: config where
  "default_config =
     \<lparr>confidence_threshold = Finite (3152519739159347 / 4503599627370496),
      cqa_confidence = Finite (3602879701896397 / 4503599627370496)\<rparr>"

text \<open>The registry of the seven agents that \<^verbatim>\<open>initialize_agents\<close> returns.\<close>

definition seven_agents :: registry where
  "seven_agents =
     [(''TranslationAgent'', ''Translates messages to/from English for multi-language support.''),
      (''TriageAgent'', ''Routes inquiries to CLU (intent) or CQA (FAQ) for classification.''),
      (''Lumi'', ''Primary orchestrator that routes to SAGE domain agents based on IRI methodology.''),
      (''SciencesAgent'', ''Provides research-based guidance from NIOSH, CDC, and occupational health literature.''),
      (''GovernanceAgent'', ''Provides regulatory guidance from OSHA regulations (29 CFR 1904).''),
      (''AnalyticsAgent'', ''Provides industry risk analytics from BLS injury rates and NAICS data.''),
      (''ExperienceAgent'', ''Manages incident records and generates OSHA forms (Zone 2, PII-protected).'')]"

text \<open>Payload texts with the values \<^verbatim>\<open>json.loads\<close> returns for them. \<open>sample_loads\<close> is
  \<^verbatim>\<open>json.loads\<close> on these texts; the one other text used below, \<^verbatim>\<open>not json\<close>, is not
  JSON.\<close>

definition inbound_text :: string where
  \<open>inbound_text = ''{"response": {"current_question": "Is this recordable?"}}''\<close>

definition inbound_value :: json where
  "inbound_value = JObj [(''response'', JObj [(''current_question'', JStr ''Is this recordable?'')])]"

definition cqa_high_text :: string where
  \<open>cqa_high_text = ''{"type": "cqa_result", "response": {"answers": [{"confidenceScore": 0.875}]}}''\<close>

definition cqa_high_value :: json where
  "cqa_high_value =
     JObj [(''type'', JStr ''cqa_result''),
           (''response'', JObj [(''answers'', JArr [JObj [(''confidenceScore'', JFloat (Finite (7 / 8)))]])])]"

definition cqa_low_text :: string where
  \<open>cqa_low_text = ''{"type": "cqa_result", "response": {"answers": [{"confidenceScore": 0.5}]}}''\<close>

definition cqa_low_value :: json where
  "cqa_low_value =
     JObj [(''type'', JStr ''cqa_result''),
           (''response'', JObj [(''answers'', JArr [JObj [(''confidenceScore'', JFloat (Finite (1 / 2)))]])])]"

definition clu_text :: string where
  \<open>clu_text = ''{"type": "clu_result", "response": {"result": {"conversations": [{"intents": [{"name": "Recordability", "confidenceScore": 0.25}]}]}}}''\<close>

definition clu_value :: json where
  "clu_value =
     JObj [(''type'', JStr ''clu_result''),
           (''response'', JObj [(''result'', JObj [(''conversations'',
              JArr [JObj [(''intents'',
                JArr [JObj [(''name'', JStr ''Recordability''),
                            (''confidenceScore'', JFloat (Finite (1 / 4)))]])]])])])]"

definition other_type_text :: string where
  \<open>other_type_text = ''{"type": "other"}''\<close>

definition other_type_value :: json where
  "other_type_value = JObj [(''type'', JStr ''other'')]"

definition lumi_unknown_text :: string where
  \<open>lumi_unknown_text = ''{"target_agent": "UnknownAgent", "iri_domains": ["governance"]}''\<close>

definition lumi_unknown_value :: json where
  "lumi_unknown_value =
     JObj [(''target_agent'', JStr ''UnknownAgent''), (''iri_domains'', JArr [JStr ''governance''])]"

definition lumi_null_domains_text :: string where
  \<open>lumi_null_domains_text = ''{"target_agent": "SciencesAgent", "iri_domains": null}''\<close>

definition lumi_null_domains_value :: json where
  "lumi_null_domains_value =
     JObj [(''target_agent'', JStr ''SciencesAgent''), (''iri_domains'', JNull)]"

definition lumi_unknown_null_text :: string where
  \<open>lumi_unknown_null_text = ''{"target_agent": "UnknownAgent", "iri_domains": null}''\<close>

definition lumi_unknown_null_value :: json where
  "lumi_unknown_null_value =
     JObj [(''target_agent'', JStr ''UnknownAgent''), (''iri_domains'', JNull)]"

definition empty_object_text :: string where
  \<open>empty_object_text = ''{}''\<close>

definition empty_list_text :: string where
  \<open>empty_list_text = ''[]''\<close>

definition sage_text :: string where
  \<open>sage_text = ''{"response": "Which treatment?", "need_more_info": "True"}''\<close>

definition sage_value :: json where
  "sage_value = JObj [(''response'', JStr ''Which treatment?''), (''need_more_info'', JStr ''True'')]"

definition outbound_text :: string where
  \<open>outbound_text = ''{"response": {"final_answer": "Yes.", "need_more_info": false}}''\<close>

definition outbound_value :: json where
  "outbound_value =
     JObj [(''response'', JObj [(''final_answer'', JStr ''Yes.''), (''need_more_info'', JBool False)])]"

definition no_flag_text :: string where
  \<open>no_flag_text = ''{"response": {"final_answer": "Yes."}}''\<close>

definition no_flag_value :: json where
  "no_flag_value = JObj [(''response'', JObj [(''final_answer'', JStr ''Yes.'')])]"

definition no_answer_text :: string where
  \<open>no_answer_text = ''{"response": {"need_more_info": false}}''\<close>

definition no_answer_value :: json where
  "no_answer_value = JObj [(''response'', JObj [(''need_more_info'', JBool False)])]"

definition sample_loads :: loads where
  "sample_loads =
     map_of
       [(inbound_text, inbound_value),
        (cqa_high_text, cqa_high_value),
        (cqa_low_text, cqa_low_value),
        (clu_text, clu_value),
        (other_type_text, other_type_value),
        (lumi_unknown_text, lumi_unknown_value),
        (lumi_null_domains_text, lumi_null_domains_value),
        (empty_object_text, JObj []),
        (empty_list_text, JArr []),
        (sage_text, sage_value),
        (outbound_text, outbound_value),
        (no_flag_text, no_flag_value),
        (no_answer_text, no_answer_value),
        (lumi_unknown_null_text, lumi_unknown_null_value)]"

definition user_turn :: "string \<Rightarrow> chat_message" where
  "user_turn c = \<lparr>role = USER, name = None, content = c\<rparr>"

definition agent_turn :: "string \<Rightarrow> string \<Rightarrow> chat_message" where
  "agent_turn a c = \<lparr>role = ASSISTANT, name = Some a, content = c\<rparr>"

section \<open>Notions of the specification\<close>

text \<open>The clarification flag as the specification words it: the latest payload is a JSON
  object whose field \<^verbatim>\<open>need_more_info\<close> is the string \<^verbatim>\<open>"True"\<close>.\<close>

definition declares_need_more_info :: "loads \<Rightarrow> chat_message \<Rightarrow> bool" where
  "declares_need_more_info json_loads m =
     (case json_loads (content m) of
        Some (JObj kvs) \<Rightarrow> map_of kvs ''need_more_info'' = Some (JStr ''True'')
      | _ \<Rightarrow> False)"

text \<open>The termination check as the specification words it: the latest turn's speaker is
  the Translator and it is not the first Translator turn of the exchange.\<close>

definition spec_isTerminal :: "chat_message list \<Rightarrow> bool" where
  "spec_isTerminal turns =
     (turns \<noteq> [] \<and> name (last turns) = Some ''TranslationAgent'' \<and>
      Some ''TranslationAgent'' \<in> set (map name (butlast turns)))"

text \<open>The turn loop that drives the manager is the group chat orchestration of the agent
  library, not code of the repository. As the orchestrator uses it: \<^verbatim>\<open>process_message\<close>
  passes the task as one string, which becomes the first turn, a user turn without a name;
  after every turn the loop asks \<^verbatim>\<open>should_terminate\<close> and, unless the chat is terminal,
  \<^verbatim>\<open>select_next_agent\<close>; the agent selected appends one turn under its own name.
  \<open>exchange\<close> holds of the logs that arise this way.\<close>

inductive exchange :: "loads \<Rightarrow> config \<Rightarrow> registry \<Rightarrow> chat_message list \<Rightarrow> bool"
  for json_loads :: loads and cfg :: config and participants :: registry where
  task: "exchange json_loads cfg participants [user_turn c]"
| turn: "exchange json_loads cfg participants chat_history \<Longrightarrow>
         should_terminate chat_history = Inr (printed, continue) \<Longrightarrow> \<not> result continue \<Longrightarrow>
         snd (select_next_agent json_loads cfg chat_history participants) = Some selected \<Longrightarrow>
         result selected = Some a \<Longrightarrow>
         exchange json_loads cfg participants (chat_history @ [agent_turn a c])"

text \<open>A confidence score is a JSON number: the value of an integer or of a float.\<close>

fun number_of :: "json \<Rightarrow> pyfloat option" where
  "number_of (JInt i) = Some (Finite (of_int i))"
| "number_of (JFloat f) = Some f"
| "number_of _ = None"

text \<open>The values that \<^verbatim>\<open>', '.join\<close> accepts: a list of strings, a string, an object.\<close>

fun joinable :: "json \<Rightarrow> bool" where
  "joinable (JArr xs) = list_all (\<lambda>x. str_of x \<noteq> None) xs"
| "joinable (JStr s) = True"
| "joinable (JObj kvs) = True"
| "joinable _ = False"

text \<open>The field \<^verbatim>\<open>iri_domains\<close> of a Dispatcher payload is absent or can be joined.\<close>

definition iri_domains_ok :: "(string \<times> json) list \<Rightarrow> bool" where
  "iri_domains_ok kvs = (case map_of kvs ''iri_domains'' of None \<Rightarrow> True | Some d \<Rightarrow> joinable d)"

text \<open>The names that the routing functions look up in the registry.\<close>

definition agent_names :: "string list" where
  "agent_names = [''TranslationAgent'', ''TriageAgent'', ''Lumi''] @ valid_agents"


text \<open>A Translator turn follows an answer when the turn before it is a Domain Responder
  turn or a Router turn (the direct FAQ answer).\<close>

definition spec_follows_answer :: "chat_message list \<Rightarrow> bool" where
  "spec_follows_answer turns =
     (2 \<le> length turns \<and>
      name (turns ! (length turns - 2)) \<in> set (map Some (''TriageAgent'' # valid_agents)))"





section \<open>Properties\<close>

subsection \<open>Reading the log\<close>

lemma py_last_nonempty: "xs \<noteq> [] \<Longrightarrow> py_last xs = Inr (last xs)"
proof -
  assume ne: "xs \<noteq> []"
  then have len: "Suc 0 \<le> length xs" by (cases xs) simp_all
  then have idx: "nat (int (length xs) + - 1) = length xs - 1" by simp
  have "py_last xs = Inr (xs ! nat (int (length xs) + - 1))"
    using len by (simp add: py_last_def py_seq_index_def)
  with ne idx show ?thesis by (simp add: last_conv_nth)
qed

lemmas samples =
  sample_loads_def inbound_text_def inbound_value_def cqa_high_text_def cqa_high_value_def
  cqa_low_text_def cqa_low_value_def clu_text_def clu_value_def other_type_text_def
  other_type_value_def lumi_unknown_text_def lumi_unknown_value_def lumi_null_domains_text_def
  lumi_null_domains_value_def empty_object_text_def empty_list_text_def sage_text_def
  sage_value_def outbound_text_def outbound_value_def no_flag_text_def no_flag_value_def
  no_answer_text_def no_answer_value_def user_turn_def agent_turn_def
  lumi_unknown_null_text_def lumi_unknown_null_value_def

subsection \<open>Result filtering\<close>

text \<open>
  Claim C10. \<^verbatim>\<open>filter_results\<close> never raises: on every chat history it returns a message
  result. On the empty history that is an assistant message with the fixed content
  \<^verbatim>\<open>No messages in chat history.\<close>; on a non-empty history it is an assistant message with
  the content of the last message, unchanged.
\<close>

theorem filter_results_never_raises:
  "filter_results chat_history =
     Inr \<lparr>result = \<lparr>role = ASSISTANT, name = None,
                     content = (if chat_history = [] then ''No messages in chat history.''
                                else content (last chat_history))\<rparr>,
          reason = (if chat_history = [] then [Lit ''Chat history is empty.'']
                    else [Lit ''Returning the last agent's response.''])\<rparr>"
  by (simp add: filter_results_def py_last_nonempty)

subsection \<open>Clarification check\<close>

text \<open>
  Claim C7. For every conversation log, \<^verbatim>\<open>should_request_user_input\<close> returns a result,
  and the result is true if and only if the log has a latest turn whose payload declares
  \<^verbatim>\<open>need_more_info\<close> to be the string \<^verbatim>\<open>"True"\<close>. The function takes the log alone (no
  registry, no thresholds) and returns the result alone: it takes no part in the choice of
  the next speaker and returns no changed log.
\<close>

theorem should_request_user_input_iff:
  "\<exists>r. should_request_user_input json_loads chat_history = Inr r \<and>
       result r = (chat_history \<noteq> [] \<and> declares_need_more_info json_loads (last chat_history))"
proof (cases "chat_history = []")
  case True
  then show ?thesis by (simp add: should_request_user_input_def no_user_input_def)
next
  case False
  show ?thesis
  proof (cases "json_loads (content (last chat_history))")
    case None
    with False show ?thesis
      by (simp add: should_request_user_input_def no_user_input_def py_last_nonempty
          declares_need_more_info_def)
  next
    case (Some parsed)
    with False show ?thesis
      by (cases parsed)
         (auto simp add: should_request_user_input_def no_user_input_def py_last_nonempty
            declares_need_more_info_def split: option.splits)
  qed
qed

theorem should_request_user_input_witness:
  "\<exists>r. should_request_user_input sample_loads [agent_turn ''GovernanceAgent'' sage_text] = Inr r \<and>
       result r = True"
  using should_request_user_input_iff [of sample_loads "[agent_turn ''GovernanceAgent'' sage_text]"]
  by (simp add: declares_need_more_info_def samples)

subsection \<open>Who can be selected\<close>

lemma should_terminate_length:
  "\<exists>printed r. should_terminate chat_history = Inr (printed, r) \<and>
     result r = (name (last chat_history) = Some ''TranslationAgent'' \<and> 3 < length chat_history)"
  by (cases "chat_history = []") (auto simp add: should_terminate_def py_last_nonempty)

lemma next_agent_eq:
  "next_agent reg x = (if x \<in> fst ` set reg then Some x else None)"
proof (cases "x \<in> fst ` set reg")
  case True
  then have "x \<in> set (map fst reg)" by simp
  then obtain i where "i < length (map fst reg)" and "map fst reg ! i = x"
    by (auto simp add: in_set_conv_nth)
  then have "\<exists>y. List.find (\<lambda>agent. agent = x) (map fst reg) = Some y"
    by (cases "List.find (\<lambda>agent. agent = x) (map fst reg)") (auto simp add: find_None_iff)
  then obtain y where y: "List.find (\<lambda>agent. agent = x) (map fst reg) = Some y" by blast
  then have "y = x" by (auto simp add: find_Some_iff)
  with y True show ?thesis by (simp add: next_agent_def)
next
  case False
  then have "List.find (\<lambda>agent. agent = x) (map fst reg) = None"
    by (auto simp add: find_None_iff)
  with False show ?thesis by (simp add: next_agent_def)
qed

lemma next_agent_Some: "next_agent reg x = Some a \<Longrightarrow> a = x"
  by (simp add: next_agent_eq split: if_splits)

lemma triage_error_none: "snd (triage_error printed e) = Some s \<Longrightarrow> result s = None"
  by (auto simp add: triage_error_def)

lemma route_translation_result:
  "result (snd (route_translation_message l m reg)) = Some a \<Longrightarrow> a = ''TriageAgent''"
  unfolding route_translation_message_def translation_error_def
  by (simp split: option.splits sum.splits if_splits add: next_agent_eq)

lemma triage_cqa_result:
  assumes "snd (triage_cqa cfg p reg) = Some s" and "result s = Some a"
  shows "a = ''TranslationAgent'' \<or> a = ''Lumi''"
proof -
  have "result s = None \<or> result s = next_agent reg ''TranslationAgent'' \<or>
        result s = next_agent reg ''Lumi''"
    using assms(1) unfolding triage_cqa_def Let_def
    by (auto split: sum.splits bool.splits dest: triage_error_none)
  with assms(2) show ?thesis by (auto simp add: next_agent_eq split: if_splits)
qed

lemma triage_clu_result:
  assumes "snd (triage_clu cfg p reg) = Some s" and "result s = Some a"
  shows "a = ''Lumi''"
proof -
  have "result s = None \<or> result s = next_agent reg ''Lumi''"
    using assms(1) unfolding triage_clu_def Let_def
    by (auto split: sum.splits bool.splits dest: triage_error_none)
  with assms(2) show ?thesis by (auto simp add: next_agent_eq split: if_splits)
qed

lemma route_triage_result:
  assumes "snd (route_triage_message l cfg m reg) = Some s" and "result s = Some a"
  shows "a = ''TranslationAgent'' \<or> a = ''Lumi''"
proof -
  have "result s = None \<or> (\<exists>p. snd (triage_cqa cfg p reg) = Some s) \<or>
        (\<exists>p. snd (triage_clu cfg p reg) = Some s)"
    using assms(1) unfolding route_triage_message_def
    by (auto split: option.splits sum.splits if_splits dest: triage_error_none)
  with assms(2) show ?thesis by (auto dest: triage_cqa_result triage_clu_result)
qed

lemma route_lumi_result:
  assumes "result (snd (route_lumi_message l m reg)) = Some a"
  shows "a \<in> set valid_agents"
proof -
  have "\<exists>t. t \<in> set valid_agents \<and> (result (snd (route_lumi_message l m reg)) = None \<or>
          result (snd (route_lumi_message l m reg)) = next_agent reg t)"
    unfolding route_lumi_message_def lumi_error_def Let_def
    by (auto simp add: valid_agents_def split: option.splits sum.splits)
  with assms show ?thesis by (auto simp add: next_agent_eq split: if_splits)
qed

lemma route_sage_result:
  "result (snd (route_sage_agent_message l m reg)) = Some a \<Longrightarrow> a = ''TranslationAgent''"
  unfolding route_sage_agent_message_def sage_error_def
  by (simp split: option.splits sum.splits if_splits add: next_agent_eq)

lemma route_user_result:
  "result (snd (route_user_message reg)) = Some a \<Longrightarrow> a = ''TranslationAgent''"
  unfolding route_user_message_def
  by (simp split: if_splits add: next_agent_eq)

lemma snd_printing: "snd (printing p r) = snd r"
  by (simp add: printing_def)

lemma snd_some_result: "snd (some_result r) = Some (snd r)"
  by (simp add: some_result_def)

lemma select_after_user:
  assumes "chat_history \<noteq> []" and "role (last chat_history) = USER"
    and "snd (select_next_agent l cfg chat_history reg) = Some s" and "result s = Some a"
  shows "a = ''TranslationAgent''"
proof -
  have "snd (select_next_agent l cfg chat_history reg) = Some (snd (route_user_message reg))"
    using assms(1,2) by (simp add: select_next_agent_def Let_def snd_printing snd_some_result)
  with assms(3,4) show ?thesis by (auto dest: route_user_result)
qed

lemma select_after_agent:
  assumes ne: "chat_history \<noteq> []" and ro: "role (last chat_history) \<noteq> USER"
    and sel: "snd (select_next_agent l cfg chat_history reg) = Some s" and res: "result s = Some a"
  shows "(name (last chat_history) = Some ''TranslationAgent'' \<and> length chat_history \<le> 3 \<and>
            a = ''TriageAgent'')
       \<or> (name (last chat_history) = Some ''TriageAgent'' \<and> (a = ''TranslationAgent'' \<or> a = ''Lumi''))
       \<or> (name (last chat_history) = Some ''Lumi'' \<and> a \<in> set valid_agents)
       \<or> (name (last chat_history) \<in> Some ` set valid_agents \<and> a = ''TranslationAgent'')"
proof -
  let ?m = "last chat_history"
  consider (T) "name ?m = Some ''TranslationAgent''"
    | (R) "name ?m = Some ''TriageAgent''"
    | (L) "name ?m = Some ''Lumi''"
    | (S) "name ?m \<noteq> Some ''TranslationAgent''" "name ?m \<noteq> Some ''TriageAgent''"
          "name ?m \<noteq> Some ''Lumi''" "name ?m \<in> Some ` set valid_agents"
    | (other) "name ?m \<noteq> Some ''TranslationAgent''" "name ?m \<noteq> Some ''TriageAgent''"
          "name ?m \<noteq> Some ''Lumi''" "name ?m \<notin> Some ` set valid_agents"
    by blast
  then show ?thesis
  proof cases
    case T
    show ?thesis
    proof (cases "3 < length chat_history")
      case True
      with T ne ro have "snd (select_next_agent l cfg chat_history reg)
          = Some \<lparr>result = None, reason = [Lit ''Final translation complete.'']\<rparr>"
        by (simp add: select_next_agent_def Let_def)
      with sel res show ?thesis by auto
    next
      case False
      with T ne ro have "snd (select_next_agent l cfg chat_history reg)
          = Some (snd (route_translation_message l ?m reg))"
        by (simp add: select_next_agent_def Let_def snd_printing snd_some_result)
      with sel res have "a = ''TriageAgent''" by (auto dest: route_translation_result)
      with T False show ?thesis by simp
    qed
  next
    case R
    with ne ro have "snd (select_next_agent l cfg chat_history reg)
        = snd (route_triage_message l cfg ?m reg)"
      by (simp add: select_next_agent_def Let_def snd_printing)
    with sel res have "a = ''TranslationAgent'' \<or> a = ''Lumi''"
      by (auto dest: route_triage_result)
    with R show ?thesis by simp
  next
    case L
    with ne ro have "snd (select_next_agent l cfg chat_history reg)
        = Some (snd (route_lumi_message l ?m reg))"
      by (simp add: select_next_agent_def Let_def snd_printing snd_some_result)
    with sel res have "a \<in> set valid_agents" by (auto dest: route_lumi_result)
    with L show ?thesis by simp
  next
    case S
    with ne ro have "snd (select_next_agent l cfg chat_history reg)
        = Some (snd (route_sage_agent_message l ?m reg))"
      by (simp add: select_next_agent_def Let_def snd_printing snd_some_result)
    with sel res have "a = ''TranslationAgent''" by (auto dest: route_sage_result)
    with S show ?thesis by simp
  next
    case other
    with ne ro have "snd (select_next_agent l cfg chat_history reg)
        = Some \<lparr>result = None, reason = [Lit ''No valid routing logic found.'']\<rparr>"
      by (simp add: select_next_agent_def Let_def)
    with sel res show ?thesis by auto
  qed
qed

subsection \<open>Termination check\<close>

lemma exchange_shape:
  assumes "exchange l cfg reg h"
  shows "h \<noteq> [] \<and> (\<forall>m \<in> set h. (role m = USER) = (name m = None)) \<and>
     (map name h = [None]
      \<or> map name h = [None, Some ''TranslationAgent'']
      \<or> map name h = [None, Some ''TranslationAgent'', Some ''TriageAgent'']
      \<or> map name h = [None, Some ''TranslationAgent'', Some ''TriageAgent'', Some ''TranslationAgent'']
      \<or> map name h = [None, Some ''TranslationAgent'', Some ''TriageAgent'', Some ''Lumi'']
      \<or> (\<exists>d \<in> set valid_agents.
            map name h = [None, Some ''TranslationAgent'', Some ''TriageAgent'', Some ''Lumi'', Some d])
      \<or> (\<exists>d \<in> set valid_agents.
            map name h = [None, Some ''TranslationAgent'', Some ''TriageAgent'', Some ''Lumi'', Some d,
                          Some ''TranslationAgent'']))"
  using assms
proof (induction rule: exchange.induct)
  case (task c)
  show ?case by (simp add: user_turn_def)
next
  case (turn h printed continue selected a c)
  from turn.IH have ne: "h \<noteq> []"
    and roles: "\<forall>m \<in> set h. (role m = USER) = (name m = None)" by simp_all
  have nm: "name (last h) = last (map name h)" using ne by (simp add: last_map)
  have len: "length h = length (map name h)" by simp
  have lastin: "last h \<in> set h" using ne by simp
  with roles have ro: "(role (last h) = USER) = (name (last h) = None)" by blast
  from should_terminate_length [of h] turn.hyps(2,3)
  have cont: "\<not> (name (last h) = Some ''TranslationAgent'' \<and> 3 < length h)" by auto
  have new: "map name (h @ [agent_turn a c]) = map name h @ [Some a]"
    by (simp add: agent_turn_def)
  have roles': "\<forall>m \<in> set (h @ [agent_turn a c]). (role m = USER) = (name m = None)"
    using roles by (auto simp add: agent_turn_def)
  from turn.IH consider
      (s1) "map name h = [None]"
    | (s2) "map name h = [None, Some ''TranslationAgent'']"
    | (s3) "map name h = [None, Some ''TranslationAgent'', Some ''TriageAgent'']"
    | (s4) "map name h = [None, Some ''TranslationAgent'', Some ''TriageAgent'', Some ''TranslationAgent'']"
    | (s5) "map name h = [None, Some ''TranslationAgent'', Some ''TriageAgent'', Some ''Lumi'']"
    | (s6) d where "d \<in> set valid_agents"
        "map name h = [None, Some ''TranslationAgent'', Some ''TriageAgent'', Some ''Lumi'', Some d]"
    | (s7) d where "d \<in> set valid_agents"
        "map name h = [None, Some ''TranslationAgent'', Some ''TriageAgent'', Some ''Lumi'', Some d,
                       Some ''TranslationAgent'']"
    by (elim conjE disjE bexE) (assumption | erule (1) meta_mp)+
  then have "map name (h @ [agent_turn a c]) = [None, Some ''TranslationAgent'']
      \<or> map name (h @ [agent_turn a c]) = [None, Some ''TranslationAgent'', Some ''TriageAgent'']
      \<or> map name (h @ [agent_turn a c]) =
           [None, Some ''TranslationAgent'', Some ''TriageAgent'', Some ''TranslationAgent'']
      \<or> map name (h @ [agent_turn a c]) =
           [None, Some ''TranslationAgent'', Some ''TriageAgent'', Some ''Lumi'']
      \<or> (\<exists>d \<in> set valid_agents. map name (h @ [agent_turn a c]) =
           [None, Some ''TranslationAgent'', Some ''TriageAgent'', Some ''Lumi'', Some d])
      \<or> (\<exists>d \<in> set valid_agents. map name (h @ [agent_turn a c]) =
           [None, Some ''TranslationAgent'', Some ''TriageAgent'', Some ''Lumi'', Some d,
            Some ''TranslationAgent''])"
  proof cases
    case s1
    with nm ro have "role (last h) = USER" by simp
    from select_after_user [OF ne this turn.hyps(4,5)] s1 new show ?thesis by simp
  next
    case s2
    with nm ro have r: "role (last h) \<noteq> USER" and n: "name (last h) = Some ''TranslationAgent''"
      by simp_all
    from select_after_agent [OF ne r turn.hyps(4,5)] n have "a = ''TriageAgent''"
      by (auto simp add: valid_agents_def)
    with s2 new show ?thesis by simp
  next
    case s3
    with nm ro have r: "role (last h) \<noteq> USER" and n: "name (last h) = Some ''TriageAgent''"
      by simp_all
    from select_after_agent [OF ne r turn.hyps(4,5)] n
    have "a = ''TranslationAgent'' \<or> a = ''Lumi''"
      by (auto simp add: valid_agents_def)
    with s3 new show ?thesis by auto
  next
    case s4
    with nm len cont show ?thesis by simp
  next
    case s5
    with nm ro have r: "role (last h) \<noteq> USER" and n: "name (last h) = Some ''Lumi''"
      by simp_all
    from select_after_agent [OF ne r turn.hyps(4,5)] n have "a \<in> set valid_agents"
      by (auto simp add: valid_agents_def)
    with s5 new show ?thesis by simp
  next
    case s6
    with nm ro have r: "role (last h) \<noteq> USER" and n: "name (last h) = Some d"
      by simp_all
    from s6(1) have d: "d \<noteq> ''TranslationAgent''" "d \<noteq> ''TriageAgent''" "d \<noteq> ''Lumi''"
      by (auto simp add: valid_agents_def)
    from select_after_agent [OF ne r turn.hyps(4,5)] n d have "a = ''TranslationAgent''"
      by auto
    with s6 new show ?thesis by simp
  next
    case s7
    with nm len cont show ?thesis by simp
  qed
  with roles' show ?case by simp
qed

lemma exchange_terminal:
  assumes "exchange l cfg reg h"
  shows "(name (last h) = Some ''TranslationAgent'' \<and> 3 < length h) = spec_isTerminal h"
proof -
  from exchange_shape [OF assms] have ne: "h \<noteq> []" by simp
  have nm: "name (last h) = last (map name h)" using ne by (simp add: last_map)
  have len: "length h = length (map name h)" by simp
  have bl: "map name (butlast h) = butlast (map name h)" by (simp add: map_butlast)
  have spec: "spec_isTerminal h =
      (last (map name h) = Some ''TranslationAgent'' \<and>
       Some ''TranslationAgent'' \<in> set (butlast (map name h)))"
    using ne by (simp add: spec_isTerminal_def nm bl)
  from exchange_shape [OF assms] consider
      (s1) "map name h = [None]"
    | (s2) "map name h = [None, Some ''TranslationAgent'']"
    | (s3) "map name h = [None, Some ''TranslationAgent'', Some ''TriageAgent'']"
    | (s4) "map name h = [None, Some ''TranslationAgent'', Some ''TriageAgent'', Some ''TranslationAgent'']"
    | (s5) "map name h = [None, Some ''TranslationAgent'', Some ''TriageAgent'', Some ''Lumi'']"
    | (s6) d where "d \<in> set valid_agents"
        "map name h = [None, Some ''TranslationAgent'', Some ''TriageAgent'', Some ''Lumi'', Some d]"
    | (s7) d where "d \<in> set valid_agents"
        "map name h = [None, Some ''TranslationAgent'', Some ''TriageAgent'', Some ''Lumi'', Some d,
                       Some ''TranslationAgent'']"
    by (elim conjE disjE bexE) (assumption | erule (1) meta_mp)+
  then show ?thesis
  proof cases
    case s1 then show ?thesis unfolding spec nm len by simp
  next
    case s2 then show ?thesis unfolding spec nm len by simp
  next
    case s3 then show ?thesis unfolding spec nm len by simp
  next
    case s4 then show ?thesis unfolding spec nm len by simp
  next
    case s5 then show ?thesis unfolding spec nm len by simp
  next
    case s6 then show ?thesis unfolding spec nm len by (auto simp add: valid_agents_def)
  next
    case s7 then show ?thesis unfolding spec nm len by simp
  qed
qed

lemma exchange_turnI:
  assumes "exchange l cfg reg h"
    and "\<not> (name (last h) = Some ''TranslationAgent'' \<and> 3 < length h)"
    and "map_option result (snd (select_next_agent l cfg h reg)) = Some (Some a)"
  shows "exchange l cfg reg (h @ [agent_turn a c])"
proof -
  from should_terminate_length [of h] obtain printed r
    where "should_terminate h = Inr (printed, r)"
      and "result r = (name (last h) = Some ''TranslationAgent'' \<and> 3 < length h)" by blast
  with assms show ?thesis by (auto intro: exchange.turn)
qed

lemmas routing_defs =
  select_next_agent_def Let_def printing_def some_result_def format_agent_response_def
  route_user_message_def route_translation_message_def translation_error_def
  route_triage_message_def triage_cqa_def triage_clu_def triage_error_def
  route_lumi_message_def lumi_error_def route_sage_agent_message_def sage_error_def
  valid_agents_def name_text_def next_agent_def py_seq_index_def py_last_def
  seven_agents_def default_config_def

lemma scenario_A_exchange:
  "exchange sample_loads default_config seven_agents
     [user_turn ''What is considered first aid?'', agent_turn ''TranslationAgent'' inbound_text,
      agent_turn ''TriageAgent'' cqa_high_text, agent_turn ''TranslationAgent'' outbound_text]"
proof -
  let ?u = "user_turn ''What is considered first aid?''"
  let ?t = "agent_turn ''TranslationAgent'' inbound_text"
  let ?r = "agent_turn ''TriageAgent'' cqa_high_text"
  have e1: "exchange sample_loads default_config seven_agents [?u]" by (rule exchange.task)
  have "exchange sample_loads default_config seven_agents ([?u] @ [?t])"
    by (rule exchange_turnI [OF e1])
       (simp_all add: routing_defs samples)
  then have e2: "exchange sample_loads default_config seven_agents [?u, ?t]" by simp
  have "exchange sample_loads default_config seven_agents ([?u, ?t] @ [?r])"
    by (rule exchange_turnI [OF e2])
       (simp_all add: routing_defs samples)
  then have e3: "exchange sample_loads default_config seven_agents [?u, ?t, ?r]" by simp
  have "exchange sample_loads default_config seven_agents
          ([?u, ?t, ?r] @ [agent_turn ''TranslationAgent'' outbound_text])"
    by (rule exchange_turnI [OF e3])
       (simp_all add: routing_defs samples)
  then show ?thesis by simp
qed

lemma exchange_follows:
  assumes "exchange l cfg reg h"
  shows "spec_isTerminal h = (name (last h) = Some ''TranslationAgent'' \<and> spec_follows_answer h)"
proof -
  from exchange_shape [OF assms] have ne: "h \<noteq> []" by simp
  have nm: "name (last h) = last (map name h)" using ne by (simp add: last_map)
  have len: "length h = length (map name h)" by simp
  have bl: "map name (butlast h) = butlast (map name h)" by (simp add: map_butlast)
  have spec: "spec_isTerminal h =
      (last (map name h) = Some ''TranslationAgent'' \<and>
       Some ''TranslationAgent'' \<in> set (butlast (map name h)))"
    using ne by (simp add: spec_isTerminal_def nm bl)
  have fol: "spec_follows_answer h =
      (2 \<le> length (map name h) \<and>
       map name h ! (length (map name h) - 2) \<in> set (map Some (''TriageAgent'' # valid_agents)))"
    unfolding spec_follows_answer_def
    by (cases "2 \<le> length h") (simp_all del: set_map)
  from exchange_shape [OF assms] consider
      (s1) "map name h = [None]"
    | (s2) "map name h = [None, Some ''TranslationAgent'']"
    | (s3) "map name h = [None, Some ''TranslationAgent'', Some ''TriageAgent'']"
    | (s4) "map name h = [None, Some ''TranslationAgent'', Some ''TriageAgent'', Some ''TranslationAgent'']"
    | (s5) "map name h = [None, Some ''TranslationAgent'', Some ''TriageAgent'', Some ''Lumi'']"
    | (s6) d where "d \<in> set valid_agents"
        "map name h = [None, Some ''TranslationAgent'', Some ''TriageAgent'', Some ''Lumi'', Some d]"
    | (s7) d where "d \<in> set valid_agents"
        "map name h = [None, Some ''TranslationAgent'', Some ''TriageAgent'', Some ''Lumi'', Some d,
                       Some ''TranslationAgent'']"
    by (elim conjE disjE bexE) (assumption | erule (1) meta_mp)+
  then show ?thesis
  proof cases
    case s1 then show ?thesis unfolding spec fol nm by simp
  next
    case s2 then show ?thesis unfolding spec fol nm by (simp add: valid_agents_def)
  next
    case s3 then show ?thesis unfolding spec fol nm by simp
  next
    case s4 then show ?thesis unfolding spec fol nm by simp
  next
    case s5 then show ?thesis unfolding spec fol nm by simp
  next
    case s6 then show ?thesis unfolding spec fol nm by (auto simp add: valid_agents_def)
  next
    case s7 then show ?thesis unfolding spec fol nm by (auto simp add: valid_agents_def)
  qed
qed

text \<open>
  Claim C1. The logs that \<^verbatim>\<open>should_terminate\<close> receives are those that the turn loop
  builds from the task, which \<^verbatim>\<open>process_message\<close> passes as one string. For every such log
  \<^verbatim>\<open>should_terminate\<close> returns a result, which is true if and only if the latest turn's
  speaker is the Translator (\<^verbatim>\<open>TranslationAgent\<close>) and it is not the first Translator turn
  of the exchange; that is the case exactly when the latest turn is a Translator turn that
  follows a Domain Responder turn or the Router's direct FAQ answer.
\<close>

theorem should_terminate_iff:
  assumes "exchange json_loads cfg participants chat_history"
  shows "\<exists>printed r. should_terminate chat_history = Inr (printed, r) \<and>
     result r = spec_isTerminal chat_history \<and>
     spec_isTerminal chat_history
       = (name (last chat_history) = Some ''TranslationAgent'' \<and> spec_follows_answer chat_history)"
proof -
  from should_terminate_length [of chat_history] obtain printed r
    where "should_terminate chat_history = Inr (printed, r)"
      and "result r = (name (last chat_history) = Some ''TranslationAgent'' \<and> 3 < length chat_history)"
    by blast
  with exchange_terminal [OF assms] exchange_follows [OF assms] show ?thesis by simp
qed

theorem should_terminate_iff_witness:
  "exchange sample_loads default_config seven_agents
     [user_turn ''What is considered first aid?'', agent_turn ''TranslationAgent'' inbound_text,
      agent_turn ''TriageAgent'' cqa_high_text, agent_turn ''TranslationAgent'' outbound_text]
   \<and> (\<exists>printed r. should_terminate
        [user_turn ''What is considered first aid?'', agent_turn ''TranslationAgent'' inbound_text,
         agent_turn ''TriageAgent'' cqa_high_text, agent_turn ''TranslationAgent'' outbound_text]
        = Inr (printed, r) \<and> result r = True)
   \<and> spec_follows_answer
        [user_turn ''What is considered first aid?'', agent_turn ''TranslationAgent'' inbound_text,
         agent_turn ''TriageAgent'' cqa_high_text, agent_turn ''TranslationAgent'' outbound_text]"
  using scenario_A_exchange
    should_terminate_iff [OF scenario_A_exchange]
  by (simp add: spec_isTerminal_def spec_follows_answer_def agent_turn_def user_turn_def)

subsection \<open>Routing after a Router turn\<close>

lemma select_triage:
  assumes "chat_history \<noteq> []" and "role (last chat_history) \<noteq> USER"
    and "name (last chat_history) = Some ''TriageAgent''"
  shows "snd (select_next_agent l cfg chat_history reg)
           = snd (route_triage_message l cfg (last chat_history) reg)"
  using assms by (simp add: select_next_agent_def Let_def snd_printing)

lemma triage_cqa_high:
  assumes "py_path p [K ''response'', K ''answers'', I 0, K ''confidenceScore''] = Inr c"
    and "number_of c = Some (Finite x)" and "cqa_confidence cfg = Finite t" and "t < x"
  shows "\<exists>s. snd (triage_cqa cfg p reg) = Some s \<and> result s = next_agent reg ''TranslationAgent''"
proof -
  from assms(2,3,4) have "py_ge c (cqa_confidence cfg) = Inr True"
    by (cases c) (auto split: if_splits)
  with assms(1) show ?thesis by (simp add: triage_cqa_def Let_def)
qed

lemma triage_cqa_low:
  assumes "py_path p [K ''response'', K ''answers'', I 0, K ''confidenceScore''] = Inr c"
    and "number_of c = Some (Finite x)" and "cqa_confidence cfg = Finite t" and "x < t"
  shows "\<exists>s. snd (triage_cqa cfg p reg) = Some s \<and> result s = next_agent reg ''Lumi''"
proof -
  from assms(2,3,4) have "py_ge c (cqa_confidence cfg) = Inr False"
    by (cases c) (auto split: if_splits)
  with assms(1) show ?thesis by (simp add: triage_cqa_def Let_def)
qed

lemma triage_clu_any:
  assumes "py_path p [K ''response'', K ''result'', K ''conversations'', I 0, K ''intents'', I 0,
                      K ''name''] = Inr intent"
    and "py_path p [K ''response'', K ''result'', K ''conversations'', I 0, K ''intents'', I 0,
                      K ''confidenceScore''] = Inr c"
    and "number_of c = Some f"
  shows "\<exists>s. snd (triage_clu cfg p reg) = Some s \<and> result s = next_agent reg ''Lumi''"
proof -
  from assms(3) obtain b where "py_ge c (confidence_threshold cfg) = Inr b"
    by (cases c) auto
  with assms(1,2) show ?thesis
    unfolding triage_clu_def Let_def by (cases b) simp_all
qed

text \<open>
  Claim C4. Let the latest turn of the log be a Router (\<^verbatim>\<open>TriageAgent\<close>) turn whose payload
  decodes to a JSON object, and let the registry hold the Translator and the Dispatcher.
  If the payload is a FAQ result (\<^verbatim>\<open>cqa_result\<close>) whose top answer has a confidence above
  the FAQ threshold, the next speaker is the Translator; if that confidence is below the
  threshold, the next speaker is the Dispatcher (\<^verbatim>\<open>Lumi\<close>); if the payload is an intent
  result (\<^verbatim>\<open>clu_result\<close>) with a top intent and a confidence score, the next speaker is the
  Dispatcher whatever the score and the threshold are.
\<close>

theorem router_turn_routing:
  assumes "chat_history \<noteq> []" and "role (last chat_history) \<noteq> USER"
    and "name (last chat_history) = Some ''TriageAgent''"
    and "json_loads (content (last chat_history)) = Some (JObj kvs)"
    and "''TranslationAgent'' \<in> fst ` set participants" and "''Lumi'' \<in> fst ` set participants"
  shows
    "(map_of kvs ''type'' = Some (JStr ''cqa_result'') \<and>
      py_path (JObj kvs) [K ''response'', K ''answers'', I 0, K ''confidenceScore''] = Inr c \<and>
      number_of c = Some (Finite x) \<and> cqa_confidence cfg = Finite t \<and> t < x \<longrightarrow>
        (\<exists>s. snd (select_next_agent json_loads cfg chat_history participants) = Some s \<and>
             result s = Some ''TranslationAgent''))
   \<and> (map_of kvs ''type'' = Some (JStr ''cqa_result'') \<and>
      py_path (JObj kvs) [K ''response'', K ''answers'', I 0, K ''confidenceScore''] = Inr c \<and>
      number_of c = Some (Finite x) \<and> cqa_confidence cfg = Finite t \<and> x < t \<longrightarrow>
        (\<exists>s. snd (select_next_agent json_loads cfg chat_history participants) = Some s \<and>
             result s = Some ''Lumi''))
   \<and> (map_of kvs ''type'' = Some (JStr ''clu_result'') \<and>
      py_path (JObj kvs) [K ''response'', K ''result'', K ''conversations'', I 0, K ''intents'', I 0,
                          K ''name''] = Inr intent \<and>
      py_path (JObj kvs) [K ''response'', K ''result'', K ''conversations'', I 0, K ''intents'', I 0,
                          K ''confidenceScore''] = Inr c \<and>
      number_of c = Some f \<longrightarrow>
        (\<exists>s. snd (select_next_agent json_loads cfg chat_history participants) = Some s \<and>
             result s = Some ''Lumi''))"
proof -
  have sel: "snd (select_next_agent json_loads cfg chat_history participants)
      = snd (route_triage_message json_loads cfg (last chat_history) participants)"
    by (rule select_triage [OF assms(1,2,3)])
  have tr: "next_agent participants ''TranslationAgent'' = Some ''TranslationAgent''"
    and lu: "next_agent participants ''Lumi'' = Some ''Lumi''"
    using assms(5,6) by (simp_all add: next_agent_eq)
  have cqa: "map_of kvs ''type'' = Some (JStr ''cqa_result'') \<Longrightarrow>
      route_triage_message json_loads cfg (last chat_history) participants
        = triage_cqa cfg (JObj kvs) participants"
    using assms(4) by (simp add: route_triage_message_def)
  have clu: "map_of kvs ''type'' = Some (JStr ''clu_result'') \<Longrightarrow>
      route_triage_message json_loads cfg (last chat_history) participants
        = triage_clu cfg (JObj kvs) participants"
    using assms(4) by (simp add: route_triage_message_def)
  show ?thesis
  proof (intro conjI impI)
    assume a: "map_of kvs ''type'' = Some (JStr ''cqa_result'') \<and>
      py_path (JObj kvs) [K ''response'', K ''answers'', I 0, K ''confidenceScore''] = Inr c \<and>
      number_of c = Some (Finite x) \<and> cqa_confidence cfg = Finite t \<and> t < x"
    then have "\<exists>s. snd (triage_cqa cfg (JObj kvs) participants) = Some s \<and>
        result s = next_agent participants ''TranslationAgent''"
      by (intro triage_cqa_high [of _ c x cfg t]) simp_all
    with a sel cqa tr
    show "\<exists>s. snd (select_next_agent json_loads cfg chat_history participants) = Some s \<and>
             result s = Some ''TranslationAgent''" by simp
  next
    assume a: "map_of kvs ''type'' = Some (JStr ''cqa_result'') \<and>
      py_path (JObj kvs) [K ''response'', K ''answers'', I 0, K ''confidenceScore''] = Inr c \<and>
      number_of c = Some (Finite x) \<and> cqa_confidence cfg = Finite t \<and> x < t"
    then have "\<exists>s. snd (triage_cqa cfg (JObj kvs) participants) = Some s \<and>
        result s = next_agent participants ''Lumi''"
      by (intro triage_cqa_low [of _ c x cfg t]) simp_all
    with a sel cqa lu
    show "\<exists>s. snd (select_next_agent json_loads cfg chat_history participants) = Some s \<and>
             result s = Some ''Lumi''" by simp
  next
    assume a: "map_of kvs ''type'' = Some (JStr ''clu_result'') \<and>
      py_path (JObj kvs) [K ''response'', K ''result'', K ''conversations'', I 0, K ''intents'', I 0,
                          K ''name''] = Inr intent \<and>
      py_path (JObj kvs) [K ''response'', K ''result'', K ''conversations'', I 0, K ''intents'', I 0,
                          K ''confidenceScore''] = Inr c \<and>
      number_of c = Some f"
    then have "\<exists>s. snd (triage_clu cfg (JObj kvs) participants) = Some s \<and>
        result s = next_agent participants ''Lumi''"
      by (intro triage_clu_any [of _ intent c f]) simp_all
    with a sel clu lu
    show "\<exists>s. snd (select_next_agent json_loads cfg chat_history participants) = Some s \<and>
             result s = Some ''Lumi''" by simp
  qed
qed

theorem router_turn_routing_witness:
  "(\<exists>s. snd (select_next_agent sample_loads default_config
              [user_turn ''What is considered first aid?'',
               agent_turn ''TranslationAgent'' inbound_text,
               agent_turn ''TriageAgent'' cqa_high_text] seven_agents) = Some s \<and>
        result s = Some ''TranslationAgent'')
   \<and> (\<exists>s. snd (select_next_agent sample_loads default_config
              [user_turn ''What is considered first aid?'',
               agent_turn ''TranslationAgent'' inbound_text,
               agent_turn ''TriageAgent'' cqa_low_text] seven_agents) = Some s \<and>
        result s = Some ''Lumi'')
   \<and> (\<exists>s. snd (select_next_agent sample_loads default_config
              [user_turn ''Is this recordable?'',
               agent_turn ''TranslationAgent'' inbound_text,
               agent_turn ''TriageAgent'' clu_text] seven_agents) = Some s \<and>
        result s = Some ''Lumi'')"
proof (intro conjI)
  let ?cqa = "[K ''response'', K ''answers'', I 0, K ''confidenceScore'']"
  let ?t = "3602879701896397 / 4503599627370496 :: rat"
  have reg: "''TranslationAgent'' \<in> fst ` set seven_agents" "''Lumi'' \<in> fst ` set seven_agents"
    by (simp_all add: seven_agents_def)
  have thr: "cqa_confidence default_config = Finite ?t"
    by (simp add: default_config_def)
  let ?high = "[user_turn ''What is considered first aid?'',
               agent_turn ''TranslationAgent'' inbound_text,
               agent_turn ''TriageAgent'' cqa_high_text]"
  let ?kvh = "[(''type'', JStr ''cqa_result''),
     (''response'', JObj [(''answers'', JArr [JObj [(''confidenceScore'', JFloat (Finite (7 / 8)))]])])]"
  have h1: "?high \<noteq> []" "role (last ?high) \<noteq> USER" "name (last ?high) = Some ''TriageAgent''"
    by (simp_all add: agent_turn_def)
  have h2: "sample_loads (content (last ?high)) = Some (JObj ?kvh)"
    by (simp add: samples)
  have h3: "py_path (JObj ?kvh) ?cqa = Inr (JFloat (Finite (7 / 8)))"
    by (simp add: py_seq_index_def)
  show "\<exists>s. snd (select_next_agent sample_loads default_config ?high seven_agents) = Some s \<and>
        result s = Some ''TranslationAgent''"
    using router_turn_routing [where json_loads = sample_loads and chat_history = ?high
        and kvs = ?kvh and participants = seven_agents and cfg = default_config
        and c = "JFloat (Finite (7 / 8))" and x = "7 / 8" and t = ?t, OF h1 h2 reg] h3 thr
    by simp
  let ?low = "[user_turn ''What is considered first aid?'',
               agent_turn ''TranslationAgent'' inbound_text,
               agent_turn ''TriageAgent'' cqa_low_text]"
  let ?kvl = "[(''type'', JStr ''cqa_result''),
     (''response'', JObj [(''answers'', JArr [JObj [(''confidenceScore'', JFloat (Finite (1 / 2)))]])])]"
  have l1: "?low \<noteq> []" "role (last ?low) \<noteq> USER" "name (last ?low) = Some ''TriageAgent''"
    by (simp_all add: agent_turn_def)
  have l2: "sample_loads (content (last ?low)) = Some (JObj ?kvl)"
    by (simp add: samples)
  have l3: "py_path (JObj ?kvl) ?cqa = Inr (JFloat (Finite (1 / 2)))"
    by (simp add: py_seq_index_def)
  show "\<exists>s. snd (select_next_agent sample_loads default_config ?low seven_agents) = Some s \<and>
        result s = Some ''Lumi''"
    using router_turn_routing [where json_loads = sample_loads and chat_history = ?low
        and kvs = ?kvl and participants = seven_agents and cfg = default_config
        and c = "JFloat (Finite (1 / 2))" and x = "1 / 2" and t = ?t, OF l1 l2 reg] l3 thr
    by simp
  let ?clu = "[user_turn ''Is this recordable?'',
               agent_turn ''TranslationAgent'' inbound_text,
               agent_turn ''TriageAgent'' clu_text]"
  let ?kvc = "[(''type'', JStr ''clu_result''),
           (''response'', JObj [(''result'', JObj [(''conversations'',
              JArr [JObj [(''intents'',
                JArr [JObj [(''name'', JStr ''Recordability''),
                            (''confidenceScore'', JFloat (Finite (1 / 4)))]])]])])])]"
  have c1: "?clu \<noteq> []" "role (last ?clu) \<noteq> USER" "name (last ?clu) = Some ''TriageAgent''"
    by (simp_all add: agent_turn_def)
  have c2: "sample_loads (content (last ?clu)) = Some (JObj ?kvc)"
    by (simp add: samples)
  have c3: "py_path (JObj ?kvc) [K ''response'', K ''result'', K ''conversations'', I 0, K ''intents'',
               I 0, K ''name''] = Inr (JStr ''Recordability'')"
    "py_path (JObj ?kvc) [K ''response'', K ''result'', K ''conversations'', I 0, K ''intents'',
               I 0, K ''confidenceScore''] = Inr (JFloat (Finite (1 / 4)))"
    by (simp_all add: py_seq_index_def)
  show "\<exists>s. snd (select_next_agent sample_loads default_config ?clu seven_agents) = Some s \<and>
        result s = Some ''Lumi''"
    using router_turn_routing [where json_loads = sample_loads and chat_history = ?clu
        and kvs = ?kvc and participants = seven_agents and cfg = default_config
        and c = "JFloat (Finite (1 / 4))" and intent = "JStr ''Recordability''"
        and f = "Finite (1 / 4)", OF c1 c2 reg] c3
    by simp
qed

subsection \<open>Routing after a Dispatcher turn\<close>

lemma those_str_of:
  "(\<exists>ss. those (map str_of xs) = Some ss) = list_all (\<lambda>x. str_of x \<noteq> None) xs"
  by (induction xs) (auto split: option.splits)

lemma joinable_iff: "joinable d = (\<exists>j. py_join sep d = Inr j)"
proof (cases d)
  case (JArr xs)
  have "(\<exists>j. py_join sep (JArr xs) = Inr j) = (\<exists>ss. those (map str_of xs) = Some ss)"
    by (cases "those (map str_of xs)") simp_all
  with JArr show ?thesis by (simp only: joinable.simps those_str_of)
qed simp_all

lemma select_lumi:
  assumes "chat_history \<noteq> []" and "role (last chat_history) \<noteq> USER"
    and "name (last chat_history) = Some ''Lumi''"
  shows "select_next_agent l cfg chat_history reg
     = printing (format_agent_response l (Some (last chat_history)) @
                 [[Lit ''[SYSTEM]: Lumi routing to SAGE agent...'']])
         (some_result (route_lumi_message l (last chat_history) reg))"
  using assms by (simp add: select_next_agent_def Let_def)

text \<open>The name that \<^verbatim>\<open>route_lumi_message\<close> goes on with.\<close>

lemma route_lumi_object:
  assumes "l (content m) = Some (JObj kvs)" and "iri_domains_ok kvs"
  shows "\<exists>printed j. route_lumi_message l m reg =
     (if (\<exists>t \<in> set valid_agents. map_of kvs ''target_agent'' = Some (JStr t))
      then (printed,
            \<lparr>result = next_agent reg (case map_of kvs ''target_agent'' of Some (JStr t) \<Rightarrow> t | _ \<Rightarrow> []),
             reason = [Lit ''Routing to '',
                       Lit (case map_of kvs ''target_agent'' of Some (JStr t) \<Rightarrow> t | _ \<Rightarrow> []),
                       Lit '' for '', Lit j, Lit '' domain expertise.'']\<rparr>)
      else (printed @ [[Lit ''[SYSTEM]: Unknown target agent '',
                        Val (case map_of kvs ''target_agent'' of None \<Rightarrow> JNull | Some v \<Rightarrow> v),
                        Lit '', defaulting to GovernanceAgent'']],
            \<lparr>result = next_agent reg ''GovernanceAgent'',
             reason = [Lit ''Routing to '', Lit ''GovernanceAgent'', Lit '' for '', Lit j,
                       Lit '' domain expertise.'']\<rparr>))"
proof -
  let ?ta = "case map_of kvs ''target_agent'' of None \<Rightarrow> JNull | Some v \<Rightarrow> v"
  let ?iri = "case map_of kvs ''iri_domains'' of None \<Rightarrow> JArr [] | Some v \<Rightarrow> v"
  have "joinable ?iri" using assms(2) by (simp add: iri_domains_ok_def split: option.splits)
  then obtain j where j: "py_join '', '' ?iri = Inr j" using joinable_iff by blast
  have g1: "py_get (JObj kvs) ''target_agent'' JNull = Inr ?ta" by (simp split: option.splits)
  have g2: "py_get (JObj kvs) ''iri_domains'' (JArr []) = Inr ?iri" by (simp split: option.splits)
  have known: "(?ta \<in> set (map JStr valid_agents))
      = (\<exists>t \<in> set valid_agents. map_of kvs ''target_agent'' = Some (JStr t))"
    by (auto split: option.splits)
  show ?thesis
  proof (cases "\<exists>t \<in> set valid_agents. map_of kvs ''target_agent'' = Some (JStr t)")
    case True
    then obtain t where t: "map_of kvs ''target_agent'' = Some (JStr t)" "t \<in> set valid_agents"
      by blast
    then have "?ta \<in> set (map JStr valid_agents)" by simp
    with True t j assms(1) show ?thesis
      by (simp add: route_lumi_message_def Let_def g1 g2 del: py_get.simps set_map)
  next
    case False
    with known have "?ta \<notin> set (map JStr valid_agents)" by simp
    with False j assms(1) show ?thesis
      by (simp add: route_lumi_message_def Let_def g1 g2 del: py_get.simps set_map)
  qed
qed

text \<open>
  Claim C5, as amended. Let the latest turn of the log be a Dispatcher (\<^verbatim>\<open>Lumi\<close>) turn whose
  payload decodes to a JSON object whose \<^verbatim>\<open>iri_domains\<close> is absent or joinable (a list of
  strings, a string or an object), and whose \<^verbatim>\<open>target_agent\<close> names a responder outside
  the four known Domain Responders; let the registry hold \<^verbatim>\<open>GovernanceAgent\<close>. Then
  \<^verbatim>\<open>select_next_agent\<close> returns a routing result whose next speaker is
  \<^verbatim>\<open>GovernanceAgent\<close> (never none), and the line reporting the substitution is among the
  printed lines.
\<close>

theorem unknown_target_fallback:
  assumes "chat_history \<noteq> []" and "role (last chat_history) \<noteq> USER"
    and "name (last chat_history) = Some ''Lumi''"
    and "json_loads (content (last chat_history)) = Some (JObj kvs)"
    and "map_of kvs ''target_agent'' = Some (JStr t)" and "t \<notin> set valid_agents"
    and "iri_domains_ok kvs"
    and "''GovernanceAgent'' \<in> fst ` set participants"
  shows "\<exists>printed s.
     select_next_agent json_loads cfg chat_history participants = (printed, Some s) \<and>
     result s = Some ''GovernanceAgent'' \<and>
     [Lit ''[SYSTEM]: Unknown target agent '', Val (JStr t), Lit '', defaulting to GovernanceAgent'']
       \<in> set printed"
proof -
  from assms(5,6) have unknown:
    "\<not> (\<exists>t \<in> set valid_agents. map_of kvs ''target_agent'' = Some (JStr t))" by auto
  from route_lumi_object [where l = json_loads and m = "last chat_history" and reg = participants,
      OF assms(4,7)] unknown assms(5)
  obtain printed j where
    "route_lumi_message json_loads (last chat_history) participants =
       (printed @ [[Lit ''[SYSTEM]: Unknown target agent '', Val (JStr t),
                    Lit '', defaulting to GovernanceAgent'']],
        \<lparr>result = next_agent participants ''GovernanceAgent'',
         reason = [Lit ''Routing to '', Lit ''GovernanceAgent'', Lit '' for '', Lit j,
                   Lit '' domain expertise.'']\<rparr>)"
    by auto
  moreover have "next_agent participants ''GovernanceAgent'' = Some ''GovernanceAgent''"
    using assms(8) by (simp add: next_agent_eq)
  ultimately show ?thesis
    by (simp add: select_lumi [OF assms(1,2,3)] printing_def some_result_def)
qed

theorem unknown_target_fallback_witness:
  "\<exists>printed s.
     select_next_agent sample_loads default_config
       [user_turn ''Is this recordable?'', agent_turn ''TranslationAgent'' inbound_text,
        agent_turn ''TriageAgent'' clu_text, agent_turn ''Lumi'' lumi_unknown_text]
       seven_agents = (printed, Some s) \<and>
     result s = Some ''GovernanceAgent'' \<and>
     [Lit ''[SYSTEM]: Unknown target agent '', Val (JStr ''UnknownAgent''),
      Lit '', defaulting to GovernanceAgent''] \<in> set printed"
proof -
  let ?h = "[user_turn ''Is this recordable?'', agent_turn ''TranslationAgent'' inbound_text,
        agent_turn ''TriageAgent'' clu_text, agent_turn ''Lumi'' lumi_unknown_text]"
  let ?kvs = "[(''target_agent'', JStr ''UnknownAgent''), (''iri_domains'', JArr [JStr ''governance''])]"
  have h: "?h \<noteq> []" "role (last ?h) \<noteq> USER" "name (last ?h) = Some ''Lumi''"
    by (simp_all add: agent_turn_def)
  have p: "sample_loads (content (last ?h)) = Some (JObj ?kvs)" by (simp add: samples)
  have t: "map_of ?kvs ''target_agent'' = Some (JStr ''UnknownAgent'')"
    "''UnknownAgent'' \<notin> set valid_agents" "iri_domains_ok ?kvs"
    "''GovernanceAgent'' \<in> fst ` set seven_agents"
    by (simp_all add: valid_agents_def iri_domains_ok_def seven_agents_def)
  show ?thesis
    by (rule unknown_target_fallback [where json_loads = sample_loads and kvs = ?kvs
          and chat_history = ?h, OF h p t])
qed

text \<open>The claim as stated fails on the payload
  \<^verbatim>\<open>{"target_agent": "UnknownAgent", "iri_domains": null}\<close>: it is valid JSON and names an
  unknown responder; the substitution is printed, then \<^verbatim>\<open>', '.join(None)\<close> raises inside
  the \<^verbatim>\<open>try\<close> block and the handler returns the result none.\<close>

theorem unknown_target_unjoinable_counterexample:
  "sample_loads lumi_unknown_null_text
     = Some (JObj [(''target_agent'', JStr ''UnknownAgent''), (''iri_domains'', JNull)]) \<and>
   snd (select_next_agent sample_loads default_config
          [user_turn ''Is this recordable?'', agent_turn ''TranslationAgent'' inbound_text,
           agent_turn ''TriageAgent'' clu_text, agent_turn ''Lumi'' lumi_unknown_null_text]
          seven_agents)
     = Some \<lparr>result = None, reason = [Lit ''Error processing Lumi message.'']\<rparr> \<and>
   [Lit ''[SYSTEM]: Unknown target agent '', Val (JStr ''UnknownAgent''),
    Lit '', defaulting to GovernanceAgent'']
     \<in> set (fst (select_next_agent sample_loads default_config
          [user_turn ''Is this recordable?'', agent_turn ''TranslationAgent'' inbound_text,
           agent_turn ''TriageAgent'' clu_text, agent_turn ''Lumi'' lumi_unknown_null_text]
          seven_agents))"
  by (simp add: samples select_next_agent_def Let_def printing_def some_result_def
      route_lumi_message_def lumi_error_def valid_agents_def format_agent_response_def)

text \<open>
  Claim C9, as amended. For every Lumi turn whose payload decodes to a JSON object with
  \<^verbatim>\<open>iri_domains\<close> absent or joinable (a list of strings, a string or an object), and a
  registry holding the four Domain Responders, \<^verbatim>\<open>route_lumi_message\<close> selects one of the
  four known names: the \<^verbatim>\<open>target_agent\<close> when that is one of them, and
  \<^verbatim>\<open>GovernanceAgent\<close> when the field is absent, null or any other value. So a payload that
  is valid JSON gives the result none only when it is not an object, when its
  \<^verbatim>\<open>iri_domains\<close> cannot be joined, or when the registry lacks the selected name.
\<close>

theorem route_lumi_total:
  assumes "json_loads (content m) = Some (JObj kvs)" and "iri_domains_ok kvs"
    and "set valid_agents \<subseteq> fst ` set participants"
  shows "\<exists>a \<in> set valid_agents.
     result (snd (route_lumi_message json_loads m participants)) = Some a \<and>
     (map_of kvs ''target_agent'' = Some (JStr a) \<or>
      a = ''GovernanceAgent'' \<and>
      (\<forall>t \<in> set valid_agents. map_of kvs ''target_agent'' \<noteq> Some (JStr t)))"
proof (cases "\<exists>t \<in> set valid_agents. map_of kvs ''target_agent'' = Some (JStr t)")
  case True
  then obtain t where t: "t \<in> set valid_agents" "map_of kvs ''target_agent'' = Some (JStr t)"
    by blast
  with assms(3) have "next_agent participants t = Some t" by (auto simp add: next_agent_eq)
  with route_lumi_object [where l = json_loads and m = m and reg = participants, OF assms(1,2)]
    True t
  have "result (snd (route_lumi_message json_loads m participants)) = Some t" by auto
  with t show ?thesis by blast
next
  case False
  have g: "''GovernanceAgent'' \<in> set valid_agents" by (simp add: valid_agents_def)
  with assms(3) have "next_agent participants ''GovernanceAgent'' = Some ''GovernanceAgent''"
    by (auto simp add: next_agent_eq)
  with route_lumi_object [where l = json_loads and m = m and reg = participants, OF assms(1,2)]
    False
  have "result (snd (route_lumi_message json_loads m participants)) = Some ''GovernanceAgent''"
    by auto
  with False g show ?thesis by blast
qed

theorem route_lumi_total_witness:
  "result (snd (route_lumi_message sample_loads (agent_turn ''Lumi'' empty_object_text) seven_agents))
     = Some ''GovernanceAgent''"
proof -
  have a: "sample_loads (content (agent_turn ''Lumi'' empty_object_text)) = Some (JObj [])"
    by (simp add: samples)
  have b: "iri_domains_ok []" by (simp add: iri_domains_ok_def)
  have c: "set valid_agents \<subseteq> fst ` set seven_agents"
    by (simp add: valid_agents_def seven_agents_def)
  from route_lumi_total [where json_loads = sample_loads and kvs = "[]"
      and m = "agent_turn ''Lumi'' empty_object_text", OF a b c]
  show ?thesis by auto
qed

text \<open>The claim as stated fails on the payload \<^verbatim>\<open>[]\<close> and on a payload with
  \<^verbatim>\<open>"iri_domains": null\<close>: both are valid JSON, and the result is none.\<close>

theorem route_lumi_valid_json_counterexample:
  "sample_loads empty_list_text = Some (JArr []) \<and>
   result (snd (route_lumi_message sample_loads (agent_turn ''Lumi'' empty_list_text) seven_agents))
     = None \<and>
   sample_loads lumi_null_domains_text =
     Some (JObj [(''target_agent'', JStr ''SciencesAgent''), (''iri_domains'', JNull)]) \<and>
   result (snd (route_lumi_message sample_loads (agent_turn ''Lumi'' lumi_null_domains_text)
                  seven_agents)) = None"
  by (simp add: samples route_lumi_message_def lumi_error_def valid_agents_def)

subsection \<open>Malformed payloads\<close>

lemma select_not_json:
  assumes "chat_history \<noteq> []" and "role (last chat_history) \<noteq> USER"
    and "json_loads (content (last chat_history)) = None"
    and "name (last chat_history) \<in> Some ` set agent_names"
    and "\<not> (name (last chat_history) = Some ''TranslationAgent'' \<and> 3 < length chat_history)"
  shows "\<exists>s. snd (select_next_agent json_loads cfg chat_history participants) = Some s \<and>
     result s = None \<and>
     reason s \<in> {[Lit ''Error routing to TriageAgent: '', Exn JSONDecodeError],
                 [Lit ''Error processing TriageAgent message.''],
                 [Lit ''Error processing Lumi message.''],
                 [Lit ''Error processing SAGE agent message.'']}"
proof -
  let ?m = "last chat_history"
  from assms(4) consider (T) "name ?m = Some ''TranslationAgent''"
    | (R) "name ?m = Some ''TriageAgent''" | (L) "name ?m = Some ''Lumi''"
    | (S) "name ?m \<noteq> Some ''TranslationAgent''" "name ?m \<noteq> Some ''TriageAgent''"
          "name ?m \<noteq> Some ''Lumi''" "name ?m \<in> Some ` set valid_agents"
    by (auto simp add: agent_names_def)
  then show ?thesis
  proof cases
    case T
    with assms(1,2,3,5) show ?thesis
      by (simp add: select_next_agent_def Let_def snd_printing snd_some_result
          route_translation_message_def translation_error_def)
  next
    case R
    with assms(1,2,3) show ?thesis
      by (simp add: select_next_agent_def Let_def snd_printing route_triage_message_def
          triage_error_def)
  next
    case L
    with assms(1,2,3) show ?thesis
      by (simp add: select_next_agent_def Let_def snd_printing snd_some_result
          route_lumi_message_def lumi_error_def)
  next
    case S
    with assms(1,2,3) show ?thesis
      by (simp add: select_next_agent_def Let_def snd_printing snd_some_result
          route_sage_agent_message_def sage_error_def)
  qed
qed

lemma router_other_type:
  assumes "chat_history \<noteq> []" and "role (last chat_history) \<noteq> USER"
    and "name (last chat_history) = Some ''TriageAgent''"
    and "json_loads (content (last chat_history)) = Some (JObj kvs)"
    and "map_of kvs ''type'' \<noteq> Some (JStr ''cqa_result'')"
    and "map_of kvs ''type'' \<noteq> Some (JStr ''clu_result'')"
  shows "snd (select_next_agent json_loads cfg chat_history participants) = None"
  using assms
  by (simp add: select_triage route_triage_message_def split: option.splits)

text \<open>
  Claim C3. When the latest participant turn carries a payload that does not parse into
  the participant's shape (it is not valid JSON, or it is a Router payload whose type is
  neither a FAQ result nor an intent result), \<^verbatim>\<open>select_next_agent\<close> is to return no next
  speaker together with an explicit routing-failure reason. The code does so for a payload
  that is not valid JSON (\<open>select_not_json\<close>). For a Router payload of another type it does
  not: \<^verbatim>\<open>route_triage_message\<close> ends without a \<^verbatim>\<open>return\<close>, and \<^verbatim>\<open>select_next_agent\<close>
  returns Python's \<^verbatim>\<open>None\<close>, which is no routing result and carries no reason. The
  theorem evaluates the code on the Router payload \<^verbatim>\<open>{"type": "other"}\<close>.
\<close>

theorem router_unknown_type_returns_nothing:
  "sample_loads other_type_text = Some (JObj [(''type'', JStr ''other'')]) \<and>
   snd (select_next_agent sample_loads default_config
          [user_turn ''Is this recordable?'', agent_turn ''TranslationAgent'' inbound_text,
           agent_turn ''TriageAgent'' other_type_text] seven_agents) = None"
  by (simp add: samples select_next_agent_def Let_def snd_printing route_triage_message_def)

subsection \<open>Determinism of the selection\<close>















subsection \<open>The retry loop\<close>

lemma process_loop_exhausted:
  "\<not> int retry_count < max_retries \<Longrightarrow>
     process_loop l max_retries env retry_count le tr = (tr, Returned (ErrorDict le) (JBool False))"
  by (subst process_loop.simps) simp

lemma process_loop_invoke_raises:
  "int retry_count < max_retries \<Longrightarrow> invoke_raises (env retry_count) = Some e \<Longrightarrow>
     process_loop l max_retries env retry_count le tr
       = (tr @ [Started retry_count, Invoked retry_count] @ teardown retry_count (env retry_count),
          Raised e)"
  by (subst process_loop.simps) (simp add: Let_def)

lemma process_loop_answer:
  "int retry_count < max_retries \<Longrightarrow> invoke_raises (env retry_count) = None \<Longrightarrow>
   awaited (env retry_count) = GetValue c \<Longrightarrow> extract_answer l c = Inr (a, n) \<Longrightarrow>
     process_loop l max_retries env retry_count le tr
       = (tr @ [Started retry_count, Invoked retry_count, Awaited retry_count 120]
             @ teardown retry_count (env retry_count),
          Returned (FinalAnswer a) n)"
  by (subst process_loop.simps) (simp add: Let_def)

text \<open>How an attempt that neither returns nor raises is classified.\<close>

lemma process_loop_retry:
  assumes "int retry_count < max_retries" and "invoke_raises (env retry_count) = None"
    and "awaited (env retry_count) = GetTimeout \<and> f = timeout_failure
       \<or> (\<exists>e. awaited (env retry_count) = GetRaises e \<and> f = exception_failure e)
       \<or> (\<exists>c e. awaited (env retry_count) = GetValue c \<and> extract_answer l c = Inl e \<and>
                 f = exception_failure e)"
  shows "process_loop l max_retries env retry_count le tr
       = process_loop l max_retries env (Suc retry_count) (Some f)
           (tr @ [Started retry_count, Invoked retry_count, Awaited retry_count 120]
               @ teardown retry_count (env retry_count) @ [Slept 1])"
  using assms by (subst process_loop.simps) (auto simp add: Let_def)

lemma process_loop_all_fail:
  assumes "\<forall>i. invoke_raises (env i) = None \<and> awaited (env i) = GetValue c"
    and "extract_answer l c = Inl e"
  shows "snd (process_loop l max_retries env retry_count le tr)
       = Returned (ErrorDict (if int retry_count < max_retries then Some (exception_failure e) else le))
           (JBool False)"
proof (induction "nat (max_retries - int retry_count)" arbitrary: retry_count le tr)
  case 0
  then have "\<not> int retry_count < max_retries" by simp
  then show ?case by (simp add: process_loop_exhausted)
next
  case (Suc k)
  then have lt: "int retry_count < max_retries" by linarith
  from Suc(2) have k: "k = nat (max_retries - int (Suc retry_count))" by simp
  have step: "process_loop l max_retries env retry_count le tr
       = process_loop l max_retries env (Suc retry_count) (Some (exception_failure e))
           (tr @ [Started retry_count, Invoked retry_count, Awaited retry_count 120]
               @ teardown retry_count (env retry_count) @ [Slept 1])"
    using assms lt by (intro process_loop_retry) auto
  show ?case unfolding step using Suc(1) [OF k] lt by simp
qed

lemma process_loop_returns:
  assumes "\<forall>i. invoke_raises (env i) = None"
  shows "\<exists>a n. snd (process_loop l max_retries env retry_count le tr) = Returned a n"
proof (induction "nat (max_retries - int retry_count)" arbitrary: retry_count le tr)
  case 0
  then have "\<not> int retry_count < max_retries" by simp
  then show ?case by (simp add: process_loop_exhausted)
next
  case (Suc k)
  then have lt: "int retry_count < max_retries" by linarith
  from Suc(2) have k: "k = nat (max_retries - int (Suc retry_count))" by simp
  from assms have inv: "invoke_raises (env retry_count) = None" by simp
  show ?case
  proof (cases "awaited (env retry_count)")
    case GetTimeout
    with lt inv show ?thesis
      using Suc(1) [OF k] by (subst process_loop_retry [where f = timeout_failure]) auto
  next
    case (GetRaises e)
    with lt inv show ?thesis
      using Suc(1) [OF k] by (subst process_loop_retry [where f = "exception_failure e"]) auto
  next
    case (GetValue c)
    show ?thesis
    proof (cases "extract_answer l c")
      case (Inl e)
      with GetValue lt inv show ?thesis
        using Suc(1) [OF k] by (subst process_loop_retry [where f = "exception_failure e"]) auto
    next
      case (Inr found)
      with GetValue lt inv show ?thesis
        by (cases found) (simp add: process_loop_answer)
    qed
  qed
qed

lemma scenario_E:
  "process_message sample_loads 3
     (\<lambda>i. \<lparr>invoke_raises = None, awaited = GetTimeout, stop_raises = None\<rparr>)
   = ([Started 0, Invoked 0, Awaited 0 120, Stopped 0, Slept 1,
       Started 1, Invoked 1, Awaited 1 120, Stopped 1, Slept 1,
       Started 2, Invoked 2, Awaited 2 120, Stopped 2, Slept 1],
      Returned (ErrorDict (Some \<lparr>etype = ''timeout'', emessage = [Lit ''Orchestration timed out'']\<rparr>))
        (JBool False))"
  by (simp add: process_message_def process_loop.simps teardown_def timeout_failure_def Let_def)

text \<open>
  Claim C2. \<^verbatim>\<open>process_message\<close> is to run at most \<^verbatim>\<open>max_retries\<close> attempts, each on a fresh
  runtime with a budget of 120 and a pause after a failed attempt, to return a structured
  error result with the last failure's classification and message when the attempts are
  used up, and to let no failure of an attempt leave it as a raw fault. As long as
  \<^verbatim>\<open>orchestration.invoke\<close> itself does not raise, the code does so (\<open>process_loop_returns\<close>,
  \<open>process_loop_all_fail\<close>, \<open>scenario_E\<close>). A failure of \<^verbatim>\<open>orchestration.invoke\<close> is not
  caught: the call stands in a \<^verbatim>\<open>try\<close> that has a \<^verbatim>\<open>finally\<close> and no \<^verbatim>\<open>except\<close>, so the
  runtime is stopped and the exception leaves \<^verbatim>\<open>process_message\<close> on the first attempt,
  without retry and without an error result. The theorem evaluates the code on such a run.
\<close>

theorem invoke_failure_propagates:
  "process_message sample_loads 3
     (\<lambda>i. \<lparr>invoke_raises = Some (Fault ''runtime is not running''), awaited = GetTimeout,
            stop_raises = None\<rparr>)
   = ([Started 0, Invoked 0, Stopped 0], Raised (Fault ''runtime is not running''))"
  by (simp add: process_message_def process_loop.simps teardown_def Let_def)


subsection \<open>Result extraction\<close>









end
